theory Spec2Isabelle
  imports Complex_Main
begin

section \<open>Failures\<close>

text \<open>
  Everything the C++ sources can do other than return normally: \<open>throw Exception (msg)\<close>,
  a failed \<open>assert\<close>, and an access past the end of a \<open>std::vector\<close> or of an image's
  axis list (undefined behaviour in C++, made a value here so that it cannot hide).
\<close>

datatype Failure = Exception string | Assertion_failed | Out_of_range

section \<open>The AllowEmpty image adapter\<close>

subsection \<open>The parent image\<close>

text \<open>
  Modelled from the spec: the Image Handle wrapped by the adapter (\<open>image.h\<close> and
  \<open>adapter/base.h\<close> are not part of the sources). Section 3 of the specification gives its
  capability set: a validity flag, \<open>size(axis)\<close>, \<open>index(axis)\<close> get and set,
  \<open>value()\<close> get and set. Sizes and positions are \<open>ssize_t\<close>, modelled as \<open>int\<close>.

  The field \<open>touched\<close> is not part of the C++ object: it records, in order, every call
  made on the image other than \<open>valid()\<close>, so that "the parent is not accessed" is a
  statement about the state.
\<close>

datatype Access =
    Read_size nat
  | Read_index nat
  | Write_index nat int
  | Read_value
  | Write_value

record 'v ImageType =
  img_valid :: bool
  img_size :: "int list"
  img_index :: "int list"
  img_voxels :: "int list \<Rightarrow> 'v"
  touched :: "Access list"

definition touch :: "Access \<Rightarrow> 'v ImageType \<Rightarrow> 'v ImageType" where
  "touch a p = p\<lparr>touched := touched p @ [a]\<rparr>"

definition image_ndim :: "'v ImageType \<Rightarrow> nat" where
  "image_ndim p = length (img_size p)"

definition image_size :: "'v ImageType \<Rightarrow> nat \<Rightarrow> Failure + int \<times> 'v ImageType" where
  "image_size p axis =
     (if axis < length (img_size p) then Inr (img_size p ! axis, touch (Read_size axis) p)
      else Inl Out_of_range)"

definition image_index :: "'v ImageType \<Rightarrow> nat \<Rightarrow> Failure + int \<times> 'v ImageType" where
  "image_index p axis =
     (if axis < length (img_index p) then Inr (img_index p ! axis, touch (Read_index axis) p)
      else Inl Out_of_range)"

definition image_set_index :: "'v ImageType \<Rightarrow> nat \<Rightarrow> int \<Rightarrow> Failure + 'v ImageType" where
  "image_set_index p axis pos =
     (if axis < length (img_index p)
      then Inr (touch (Write_index axis pos) (p\<lparr>img_index := (img_index p)[axis := pos]\<rparr>))
      else Inl Out_of_range)"

definition image_value :: "'v ImageType \<Rightarrow> 'v \<times> 'v ImageType" where
  "image_value p = (img_voxels p (img_index p), touch Read_value p)"

definition image_set_value :: "'v ImageType \<Rightarrow> 'v \<Rightarrow> 'v ImageType" where
  "image_set_value p val =
     touch Write_value (p\<lparr>img_voxels := (img_voxels p)(img_index p := val)\<rparr>)"

subsection \<open>The adapter (\<open>Adapter::AllowEmpty\<close>)\<close>

text \<open>
  \<open>Base<ImageType>\<close> holds the wrapped image (\<open>parent_\<close> in the source); \<open>AllowEmpty\<close> adds the constant
  member \<open>value_if_empty\<close>. \<open>valid()\<close> is the parent's validity flag.
\<close>

record 'v AllowEmpty =
  parent :: "'v ImageType"
  value_if_empty :: 'v

text \<open>
  The constructor \<open>AllowEmpty (original, value_if_empty = value_type (0.0))\<close>: the second
  argument is optional, and the default argument is the value type's zero.
\<close>

definition AllowEmpty :: "'v::zero ImageType \<Rightarrow> 'v option \<Rightarrow> 'v AllowEmpty" where
  "AllowEmpty original v =
     \<lparr>parent = original, value_if_empty = (case v of None \<Rightarrow> 0 | Some x \<Rightarrow> x)\<rparr>"

definition valid :: "'v AllowEmpty \<Rightarrow> bool" where
  "valid a = img_valid (parent a)"

definition ndim :: "'v AllowEmpty \<Rightarrow> nat" where
  "ndim a = image_ndim (parent a)"

text \<open>\<open>set_pos (n, 0)\<close> of the adapter base: the parent's position on axis \<open>n\<close> is set.\<close>

definition set_pos :: "'v AllowEmpty \<Rightarrow> nat \<Rightarrow> int \<Rightarrow> Failure + 'v AllowEmpty" where
  "set_pos a n pos =
     (case image_set_index (parent a) n pos of
        Inl e \<Rightarrow> Inl e
      | Inr p \<Rightarrow> Inr (a\<lparr>parent := p\<rparr>))"

text \<open>
  The loop of \<open>reset\<close>, \<open>for (size_t n = 0; n < ndim(); ++n) set_pos (n, 0);\<close>, with the
  number of iterations still to run as the recursion argument.
\<close>

fun reset_loop :: "nat \<Rightarrow> nat \<Rightarrow> 'v AllowEmpty \<Rightarrow> Failure + 'v AllowEmpty" where
  "reset_loop n 0 a = Inr a"
| "reset_loop n (Suc k) a =
     (case set_pos a n 0 of
        Inl e \<Rightarrow> Inl e
      | Inr a' \<Rightarrow> reset_loop (Suc n) k a')"

definition reset :: "'v AllowEmpty \<Rightarrow> Failure + 'v AllowEmpty" where
  "reset a = (if valid a then reset_loop 0 (ndim a) a else Inr a)"

definition size_axis :: "'v AllowEmpty \<Rightarrow> nat \<Rightarrow> Failure + int \<times> 'v AllowEmpty" where
  "size_axis a axis =
     (if valid a
      then (case image_size (parent a) axis of
              Inl e \<Rightarrow> Inl e
            | Inr (s, p) \<Rightarrow> Inr (s, a\<lparr>parent := p\<rparr>))
      else Inr (0, a))"

definition index :: "'v AllowEmpty \<Rightarrow> nat \<Rightarrow> Failure + int \<times> 'v AllowEmpty" where
  "index a axis =
     (if valid a
      then (case image_index (parent a) axis of
              Inl e \<Rightarrow> Inl e
            | Inr (i, p) \<Rightarrow> Inr (i, a\<lparr>parent := p\<rparr>))
      else Inr (0, a))"

text \<open>\<open>parent().index(axis) += increment\<close>: a read of the position, then a write.\<close>

definition move_index :: "'v AllowEmpty \<Rightarrow> nat \<Rightarrow> int \<Rightarrow> Failure + 'v AllowEmpty" where
  "move_index a axis increment =
     (if valid a
      then (case image_index (parent a) axis of
              Inl e \<Rightarrow> Inl e
            | Inr (i, p) \<Rightarrow>
                (case image_set_index p axis (i + increment) of
                   Inl e \<Rightarrow> Inl e
                 | Inr p' \<Rightarrow> Inr (a\<lparr>parent := p'\<rparr>)))
      else Inr a)"

definition "value" :: "'v AllowEmpty \<Rightarrow> Failure + 'v \<times> 'v AllowEmpty" where
  "value a =
     (if valid a
      then (case image_value (parent a) of (v, p) \<Rightarrow> Inr (v, a\<lparr>parent := p\<rparr>))
      else Inr (value_if_empty a, a))"

definition set_value :: "'v AllowEmpty \<Rightarrow> 'v \<Rightarrow> Failure + 'v AllowEmpty" where
  "set_value a val =
     (if valid a then Inr (a\<lparr>parent := image_set_value (parent a) val\<rparr>) else Inr a)"

section \<open>The filter driver (\<open>mrfilter\<close>)\<close>

subsection \<open>Headers, images and filters\<close>

text \<open>
  The value type \<open>default_type\<close> (\<open>double\<close>) and \<open>float\<close> are modelled by the real
  numbers, \<open>cdouble\<close> by the complex numbers: rounding is not modelled.

  Modelled from the spec: \<open>DataType\<close>, \<open>Header\<close> and \<open>Image\<close> (\<open>datatype.h\<close>,
  \<open>header.h\<close> and \<open>image.h\<close> are not part of the sources). Section 3 of the specification:
  a header holds, per axis, a size, a voxel size and a stride, and the datatype of the voxels.
  An image is a header with the voxel values, listed in the order in which a loop over the
  image visits them. Of the datatypes, \<open>mrfilter.cpp\<close> names \<open>Float32\<close> only.
\<close>

datatype DataType = Float32 | Float64 | CFloat32 | CFloat64

record Axis =
  axis_size :: int
  spacing :: real
  stride :: int

record Header =
  hdr_axes :: "Axis list"
  hdr_datatype :: DataType

record 'v Image =
  header :: Header
  voxels :: "'v list"

definition Header_ndim :: "'z Header_scheme \<Rightarrow> nat" where
  "Header_ndim h = length (hdr_axes h)"

definition Header_voxsize :: "'z Header_scheme \<Rightarrow> nat \<Rightarrow> Failure + real" where
  "Header_voxsize h axis =
     (if axis < length (hdr_axes h) then Inr (spacing (hdr_axes h ! axis))
      else Inl Out_of_range)"

text \<open>
  The filter classes derive from \<open>Filter::Base\<close>, which derives from \<open>Header\<close>: a filter is
  the header of its output image, with a progress message and its own settings. The
  settings are those that \<open>run\<close> sets through the filters' setters.
\<close>

record Base = Header +
  message :: string

record FFT = Base +
  fft_axes :: "int list"
  fft_inverse :: bool
  fft_centre_zero :: bool

record Gradient = Base +
  gradient_magnitude :: bool
  gradient_stdev :: "real list"
  gradient_wrt_scanner :: bool

record Median = Base +
  median_extent :: "int list"

record Smooth = Base +
  smooth_stdev :: "real list"
  smooth_extent :: "int list"

datatype Filter =
    FFT_filter FFT
  | Gradient_filter Gradient
  | Median_filter Median
  | Smooth_filter Smooth

subsection \<open>The command line\<close>

text \<open>
  \<open>const char* filters[]\<close>, without the terminating \<open>NULL\<close>.
\<close>

definition filters :: "string list" where
  "filters = [''fft'', ''gradient'', ''median'', ''smooth'']"

text \<open>
  The parsed command line. \<open>argument[1]\<close> is read both as a string (for the progress
  message) and as \<open>size_t\<close> (the position of the filter's name in \<open>filters\<close>, which the
  argument parser computes). An option is \<open>None\<close> when \<open>get_options (name).size ()\<close> is 0,
  and otherwise holds \<open>opt[0][0]\<close> as \<open>parse_floats\<close>, \<open>parse_ints\<close> or the conversion to
  a vector of \<open>int\<close> reads it; a flag is a \<open>bool\<close>. The options \<open>stdev\<close>,
  \<open>magnitude\<close> and \<open>extent\<close> are looked up by name alone, so the filters that have an
  option of that name share it.
\<close>

record Cmdline =
  argument0 :: string
  argument1 :: string
  filter_index :: nat
  argument2 :: string
  opt_axes :: "int list option"
  opt_inverse :: bool
  opt_magnitude :: bool
  opt_centre_zero :: bool
  opt_stdev :: "real list option"
  opt_scanner :: bool
  opt_extent :: "int list option"
  opt_fwhm :: "real list option"

text \<open>
  The argument was validated against the closed list of filters: the index is a position
  of \<open>filters\<close>, and the name at that position is the argument.
\<close>

definition validated :: "Cmdline \<Rightarrow> bool" where
  "validated cmd =
     (filter_index cmd < length filters \<and> filters ! filter_index cmd = argument1 cmd)"

subsection \<open>What \<open>run\<close> does to its collaborators\<close>

text \<open>
  \<open>run\<close> is glue: what it does is the sequence of calls it makes on the image storage and
  on the filter. Each call is an event; an event that changes the filter carries the filter
  as it is after the call. The call operator \<open>filter (input, output)\<close> is two events:
  \<open>Apply\<close> when it starts, with the filter it runs on, and \<open>Returned\<close> when it has
  returned, with the filter as it then is.
\<close>

datatype Call =
    set_axes "int list"
  | set_centre_zero bool
  | set_stdev "real list"
  | compute_wrt_scanner bool
  | set_extent "int list"
  | set_message string
  | Stride_set_from_command_line
  | assign_datatype DataType

datatype Event =
    Image_open string
  | Construct Filter
  | Configure Call Filter
  | Image_scratch Header
  | Image_create string Header
  | Apply Filter
  | Returned Filter
  | Loop_in_order

text \<open>An event that reads or writes voxels, or creates the storage for them.\<close>

fun voxel_access :: "Event \<Rightarrow> bool" where
  "voxel_access (Image_scratch h) = True"
| "voxel_access (Image_create name h) = True"
| "voxel_access (Apply f) = True"
| "voxel_access Loop_in_order = True"
| "voxel_access ev = False"

text \<open>
  The collaborators of \<open>run\<close>, none of them part of the sources, are parameters:
  \<^item> \<open>NDEBUG\<close>: whether the macro is defined, in which case \<open>assert\<close> expands to nothing;
  \<^item> \<open>throws\<close>: whether a call on a collaborator throws, and what;
  \<^item> \<open>open_cdouble\<close> and \<open>open_float\<close>: the image \<open>Image<T>::open\<close> returns;
  \<^item> \<open>new_FFT\<close>, ...: the filter a constructor builds from the input image;
  \<^item> \<open>set_from_command_line\<close>: the axes, with the strides that
    \<open>Stride::set_from_command_line\<close> leaves;
  \<^item> \<open>apply_FFT\<close>, ...: the voxel values the call operator \<open>filter (input, output)\<close>
    writes to its output.
\<close>

record Collab =
  NDEBUG :: bool
  throws :: "Event \<Rightarrow> Failure option"
  open_cdouble :: "string \<Rightarrow> complex Image"
  open_float :: "string \<Rightarrow> real Image"
  new_FFT :: "complex Image \<Rightarrow> bool \<Rightarrow> FFT"
  new_Gradient :: "real Image \<Rightarrow> bool \<Rightarrow> Gradient"
  new_Median :: "real Image \<Rightarrow> Median"
  new_Smooth :: "real Image \<Rightarrow> Smooth"
  set_from_command_line :: "Axis list \<Rightarrow> Axis list"
  apply_FFT :: "FFT \<Rightarrow> complex Image \<Rightarrow> complex list"
  apply_Gradient :: "Gradient \<Rightarrow> real Image \<Rightarrow> real list"
  apply_Median :: "Median \<Rightarrow> real Image \<Rightarrow> real list"
  apply_Smooth :: "Smooth \<Rightarrow> real Image \<Rightarrow> real list"

text \<open>
  What \<open>run\<close> leaves behind: the image created at \<open>argument[2]\<close>, of value type
  \<open>float\<close> or \<open>cdouble\<close>.
\<close>

datatype Output =
    No_output
  | Float_image string "real Image"
  | CDouble_image string "complex Image"

text \<open>
  A piece of \<open>run\<close>: the events so far, and either the failure that ended it or its result.
\<close>

type_synonym 'a Prog = "Event list \<times> (Failure + 'a)"

definition return :: "'a \<Rightarrow> 'a Prog" where
  "return x = ([], Inr x)"

definition throw :: "Failure \<Rightarrow> 'a Prog" where
  "throw e = ([], Inl e)"

definition lift :: "Failure + 'a \<Rightarrow> 'a Prog" where
  "lift r = ([], r)"

definition emit :: "Event \<Rightarrow> 'a \<Rightarrow> 'a Prog" where
  "emit ev x = ([ev], Inr x)"

definition call :: "Collab \<Rightarrow> Event \<Rightarrow> 'a \<Rightarrow> 'a Prog" where
  "call env ev x = ([ev], (case throws env ev of None \<Rightarrow> Inr x | Some e \<Rightarrow> Inl e))"

definition seq :: "'a Prog \<Rightarrow> ('a \<Rightarrow> 'b Prog) \<Rightarrow> 'b Prog" where
  "seq m k =
     (case m of
        (tr, Inl e) \<Rightarrow> (tr, Inl e)
      | (tr, Inr x) \<Rightarrow> (case k x of (tr', r) \<Rightarrow> (tr @ tr', r)))"

subsection \<open>The loops of \<open>run\<close>\<close>

text \<open>
  \<open>for (auto l = loop (temp, output); l; ++l) output.value() = std::abs (cdouble (temp.value()));\<close>
  The loop visits the voxels of \<open>temp\<close> and \<open>output\<close> together.
\<close>

primrec magnitude_loop :: "complex list \<Rightarrow> real list" where
  "magnitude_loop [] = []"
| "magnitude_loop (v # temp) = cmod v # magnitude_loop temp"

text \<open>
  \<open>for (size_t i = 0; i < stdev.size(); ++i) if (stdev[i] < 0.0) throw ...\<close>:
  whether the loop throws.
\<close>

primrec any_negative :: "real list \<Rightarrow> bool" where
  "any_negative [] = False"
| "any_negative (x # stdev) = (if x < 0 then True else any_negative stdev)"

text \<open>
  \<open>for (size_t dim = 0; dim != 3; ++dim) stdev[dim] = filter.voxsize (dim);\<close>
  with the number of iterations still to run as the recursion argument. The vector has
  \<open>filter.ndim ()\<close> elements: on a filter of fewer than 3 axes the loop leaves the vector
  and the axes.
\<close>

fun voxsize_loop :: "'z Header_scheme \<Rightarrow> nat \<Rightarrow> nat \<Rightarrow> real list \<Rightarrow> Failure + real list" where
  "voxsize_loop flt d 0 stdev = Inr stdev"
| "voxsize_loop flt d (Suc k) stdev =
     (case Header_voxsize flt d of
        Inl e \<Rightarrow> Inl e
      | Inr v \<Rightarrow>
          if d < length stdev then voxsize_loop flt (Suc d) k (stdev[d := v])
          else Inl Out_of_range)"

text \<open>
  \<open>for (size_t d = 0; d < stdevs.size(); ++d) stdevs[d] = stdevs[d] / 2.3548;\<close>
\<close>

function fwhm_loop :: "nat \<Rightarrow> real list \<Rightarrow> real list" where
  "fwhm_loop d stdevs =
     (if d < length stdevs then fwhm_loop (Suc d) (stdevs[d := stdevs ! d / 2.3548])
      else stdevs)"
  by pat_completeness auto
termination
  by (relation "measure (\<lambda>(d, stdevs). length stdevs - d)") auto

declare fwhm_loop.simps [simp del]

subsection \<open>The setters\<close>

text \<open>
  Modelled from the spec: the setters of the filter classes (\<open>filter/fft.h\<close>,
  \<open>filter/gradient.h\<close>, \<open>filter/median.h\<close> and \<open>filter/smooth.h\<close> are not part of the
  sources). A setter stores its argument in the filter; \<open>Gradient::set_stdev\<close> broadcasts a
  list of one value to the 3 spatial axes (section 4.4 of the specification). Whether a
  setter rejects its argument is the collaborators' \<open>throws\<close>.
\<close>

definition Gradient_set_stdev :: "real list \<Rightarrow> Gradient \<Rightarrow> Gradient" where
  "Gradient_set_stdev stdev flt =
     flt\<lparr>gradient_stdev := (if length stdev = 1 then replicate 3 (hd stdev) else stdev)\<rparr>"

definition FFT_configure :: "Collab \<Rightarrow> Call \<Rightarrow> FFT \<Rightarrow> FFT Prog" where
  "FFT_configure env c flt = call env (Configure c (FFT_filter flt)) flt"

definition Gradient_configure :: "Collab \<Rightarrow> Call \<Rightarrow> Gradient \<Rightarrow> Gradient Prog" where
  "Gradient_configure env c flt = call env (Configure c (Gradient_filter flt)) flt"

definition Median_configure :: "Collab \<Rightarrow> Call \<Rightarrow> Median \<Rightarrow> Median Prog" where
  "Median_configure env c flt = call env (Configure c (Median_filter flt)) flt"

definition Smooth_configure :: "Collab \<Rightarrow> Call \<Rightarrow> Smooth \<Rightarrow> Smooth Prog" where
  "Smooth_configure env c flt = call env (Configure c (Smooth_filter flt)) flt"

subsection \<open>The call operator\<close>

text \<open>
  Modelled from the spec: the call operator \<open>filter (input, output)\<close> of the filter classes
  (\<open>filter/fft.h\<close>, \<open>filter/gradient.h\<close>, \<open>filter/median.h\<close> and \<open>filter/smooth.h\<close> are
  not part of the sources). Section 4.2 of the specification: the state of a filter is fixed
  at construction and configuration time and is not mutated during the transform. The
  operator reads the filter and the input, writes the voxels of the output image, and leaves
  the filter as it is. Which voxels it writes is the collaborators' \<open>apply_FFT\<close>, ...;
  whether it throws is the collaborators' \<open>throws\<close>.
\<close>

definition call_operator :: "'f \<Rightarrow> Header \<Rightarrow> 'v list \<Rightarrow> 'f \<times> 'v Image" where
  "call_operator flt output_header written =
     (flt, \<lparr>header = output_header, voxels = written\<rparr>)"

definition FFT_call ::
  "Collab \<Rightarrow> FFT \<Rightarrow> complex Image \<Rightarrow> Header \<Rightarrow> (FFT \<times> complex Image) Prog" where
  "FFT_call env flt input output_header =
     seq (call env (Apply (FFT_filter flt))
            (call_operator flt output_header (apply_FFT env flt input)))
         (\<lambda>(flt, output). emit (Returned (FFT_filter flt)) (flt, output))"

definition Gradient_call ::
  "Collab \<Rightarrow> Gradient \<Rightarrow> real Image \<Rightarrow> Header \<Rightarrow> (Gradient \<times> real Image) Prog" where
  "Gradient_call env flt input output_header =
     seq (call env (Apply (Gradient_filter flt))
            (call_operator flt output_header (apply_Gradient env flt input)))
         (\<lambda>(flt, output). emit (Returned (Gradient_filter flt)) (flt, output))"

definition Median_call ::
  "Collab \<Rightarrow> Median \<Rightarrow> real Image \<Rightarrow> Header \<Rightarrow> (Median \<times> real Image) Prog" where
  "Median_call env flt input output_header =
     seq (call env (Apply (Median_filter flt))
            (call_operator flt output_header (apply_Median env flt input)))
         (\<lambda>(flt, output). emit (Returned (Median_filter flt)) (flt, output))"

definition Smooth_call ::
  "Collab \<Rightarrow> Smooth \<Rightarrow> real Image \<Rightarrow> Header \<Rightarrow> (Smooth \<times> real Image) Prog" where
  "Smooth_call env flt input output_header =
     seq (call env (Apply (Smooth_filter flt))
            (call_operator flt output_header (apply_Smooth env flt input)))
         (\<lambda>(flt, output). emit (Returned (Smooth_filter flt)) (flt, output))"

subsection \<open>\<open>run\<close>, case by case\<close>

text \<open>Case 0, the FFT filter.\<close>

definition FFT_message :: "Cmdline \<Rightarrow> string" where
  "FFT_message cmd = ''applying FFT filter to image '' @ argument0 cmd @ ''...''"

definition filter_message :: "Cmdline \<Rightarrow> string" where
  "filter_message cmd =
     ''applying '' @ argument1 cmd @ '' filter to image '' @ argument0 cmd @ ''...''"

definition case_FFT :: "Collab \<Rightarrow> Cmdline \<Rightarrow> Output Prog" where
  "case_FFT env cmd =
     seq (call env (Image_open (argument0 cmd)) (open_cdouble env (argument0 cmd))) (\<lambda>input.
     seq (let f = new_FFT env input (opt_inverse cmd)
          in call env (Construct (FFT_filter f)) f) (\<lambda>flt.
     seq (case opt_axes cmd of
            None \<Rightarrow> return flt
          | Some a \<Rightarrow> FFT_configure env (set_axes a) (flt\<lparr>fft_axes := a\<rparr>)) (\<lambda>flt.
     seq (FFT_configure env (set_centre_zero (opt_centre_zero cmd))
            (flt\<lparr>fft_centre_zero := opt_centre_zero cmd\<rparr>)) (\<lambda>flt.
     seq (FFT_configure env Stride_set_from_command_line
            (flt\<lparr>hdr_axes := set_from_command_line env (hdr_axes flt)\<rparr>)) (\<lambda>flt.
     seq (FFT_configure env (set_message (FFT_message cmd))
            (flt\<lparr>message := FFT_message cmd\<rparr>)) (\<lambda>flt.
     if opt_magnitude cmd then
       seq (call env (Image_scratch (Header.truncate flt)) (Header.truncate flt)) (\<lambda>temp_header.
       seq (FFT_call env flt input temp_header) (\<lambda>(flt, temp).
       seq (emit (Configure (assign_datatype Float32) (FFT_filter (flt\<lparr>hdr_datatype := Float32\<rparr>)))
              (flt\<lparr>hdr_datatype := Float32\<rparr>)) (\<lambda>flt.
       seq (call env (Image_create (argument2 cmd) (Header.truncate flt))
              (Header.truncate flt)) (\<lambda>output_header.
       seq (emit Loop_in_order
              \<lparr>header = output_header, voxels = magnitude_loop (voxels temp)\<rparr>) (\<lambda>output.
       return (Float_image (argument2 cmd) output))))))
     else
       seq (call env (Image_create (argument2 cmd) (Header.truncate flt))
              (Header.truncate flt)) (\<lambda>output_header.
       seq (FFT_call env flt input output_header) (\<lambda>(flt, output).
       return (CDouble_image (argument2 cmd) output)))))))))"

text \<open>
  Case 1, the gradient filter. First the standard deviations handed to \<open>set_stdev\<close>: the
  list of the option \<open>stdev\<close>, checked, or else the voxel sizes of the first 3 axes in a
  vector of \<open>filter.ndim ()\<close> elements that starts as zeros.
\<close>

definition Gradient_stdev :: "real list option \<Rightarrow> 'z Header_scheme \<Rightarrow> Failure + real list" where
  "Gradient_stdev opt flt =
     (case opt of
        Some stdev \<Rightarrow>
          if any_negative stdev
          then Inl (Exception ''the Gaussian stdev values cannot be negative'')
          else if length stdev \<noteq> 1 \<and> length stdev \<noteq> 3
          then Inl (Exception ''unexpected number of elements specified in Gaussian stdev'')
          else Inr stdev
      | None \<Rightarrow> voxsize_loop flt 0 3 (replicate (Header_ndim flt) 0))"

definition case_Gradient :: "Collab \<Rightarrow> Cmdline \<Rightarrow> Output Prog" where
  "case_Gradient env cmd =
     seq (call env (Image_open (argument0 cmd)) (open_float env (argument0 cmd))) (\<lambda>input.
     seq (let f = new_Gradient env input (opt_magnitude cmd)
          in call env (Construct (Gradient_filter f)) f) (\<lambda>flt.
     seq (lift (Gradient_stdev (opt_stdev cmd) flt)) (\<lambda>stdev.
     seq (Gradient_configure env (set_stdev stdev) (Gradient_set_stdev stdev flt)) (\<lambda>flt.
     seq (Gradient_configure env (compute_wrt_scanner (opt_scanner cmd))
            (flt\<lparr>gradient_wrt_scanner := opt_scanner cmd\<rparr>)) (\<lambda>flt.
     seq (Gradient_configure env (set_message (filter_message cmd))
            (flt\<lparr>message := filter_message cmd\<rparr>)) (\<lambda>flt.
     seq (Gradient_configure env Stride_set_from_command_line
            (flt\<lparr>hdr_axes := set_from_command_line env (hdr_axes flt)\<rparr>)) (\<lambda>flt.
     seq (call env (Image_create (argument2 cmd) (Header.truncate flt))
            (Header.truncate flt)) (\<lambda>output_header.
     seq (Gradient_call env flt input output_header) (\<lambda>(flt, output).
     return (Float_image (argument2 cmd) output))))))))))"

text \<open>Case 2, the median filter.\<close>

definition case_Median :: "Collab \<Rightarrow> Cmdline \<Rightarrow> Output Prog" where
  "case_Median env cmd =
     seq (call env (Image_open (argument0 cmd)) (open_float env (argument0 cmd))) (\<lambda>input.
     seq (let f = new_Median env input
          in call env (Construct (Median_filter f)) f) (\<lambda>flt.
     seq (case opt_extent cmd of
            None \<Rightarrow> return flt
          | Some e \<Rightarrow> Median_configure env (set_extent e) (flt\<lparr>median_extent := e\<rparr>)) (\<lambda>flt.
     seq (Median_configure env (set_message (filter_message cmd))
            (flt\<lparr>message := filter_message cmd\<rparr>)) (\<lambda>flt.
     seq (Median_configure env Stride_set_from_command_line
            (flt\<lparr>hdr_axes := set_from_command_line env (hdr_axes flt)\<rparr>)) (\<lambda>flt.
     seq (call env (Image_create (argument2 cmd) (Header.truncate flt))
            (Header.truncate flt)) (\<lambda>output_header.
     seq (Median_call env flt input output_header) (\<lambda>(flt, output).
     return (Float_image (argument2 cmd) output))))))))"

text \<open>Case 3, the smooth filter.\<close>

definition case_Smooth :: "Collab \<Rightarrow> Cmdline \<Rightarrow> Output Prog" where
  "case_Smooth env cmd =
     seq (call env (Image_open (argument0 cmd)) (open_float env (argument0 cmd))) (\<lambda>input.
     seq (let f = new_Smooth env input
          in call env (Construct (Smooth_filter f)) f) (\<lambda>flt.
     let stdev_supplied = (opt_stdev cmd \<noteq> None) in
     seq (case opt_stdev cmd of
            None \<Rightarrow> return flt
          | Some s \<Rightarrow> Smooth_configure env (set_stdev s) (flt\<lparr>smooth_stdev := s\<rparr>)) (\<lambda>flt.
     seq (case opt_fwhm cmd of
            None \<Rightarrow> return flt
          | Some fwhm \<Rightarrow>
              if stdev_supplied
              then throw (Exception ''the stdev and FWHM options are mutually exclusive.'')
              else (let stdevs = fwhm_loop 0 fwhm
                    in Smooth_configure env (set_stdev stdevs)
                         (flt\<lparr>smooth_stdev := stdevs\<rparr>))) (\<lambda>flt.
     seq (case opt_extent cmd of
            None \<Rightarrow> return flt
          | Some e \<Rightarrow> Smooth_configure env (set_extent e) (flt\<lparr>smooth_extent := e\<rparr>)) (\<lambda>flt.
     seq (Smooth_configure env (set_message (filter_message cmd))
            (flt\<lparr>message := filter_message cmd\<rparr>)) (\<lambda>flt.
     seq (Smooth_configure env Stride_set_from_command_line
            (flt\<lparr>hdr_axes := set_from_command_line env (hdr_axes flt)\<rparr>)) (\<lambda>flt.
     seq (call env (Image_create (argument2 cmd) (Header.truncate flt))
            (Header.truncate flt)) (\<lambda>output_header.
     seq (Smooth_call env flt input output_header) (\<lambda>(flt, output).
     return (Float_image (argument2 cmd) output))))))))))"

text \<open>
  \<open>default: assert (0); break;\<close> With \<open>NDEBUG\<close> defined the assertion is compiled out
  and the branch only leaves the switch.
\<close>

definition case_default :: "Collab \<Rightarrow> Output Prog" where
  "case_default env = (if NDEBUG env then return No_output else throw Assertion_failed)"

text \<open>\<open>switch (filter_index)\<close>: the branch the switch selects.\<close>

datatype Branch = Case_0 | Case_1 | Case_2 | Case_3 | Default

definition switch :: "nat \<Rightarrow> Branch" where
  "switch i =
     (if i = 0 then Case_0
      else if i = 1 then Case_1
      else if i = 2 then Case_2
      else if i = 3 then Case_3
      else Default)"

definition run :: "Collab \<Rightarrow> Cmdline \<Rightarrow> Output Prog" where
  "run env cmd =
     (case switch (filter_index cmd) of
        Case_0 \<Rightarrow> case_FFT env cmd
      | Case_1 \<Rightarrow> case_Gradient env cmd
      | Case_2 \<Rightarrow> case_Median env cmd
      | Case_3 \<Rightarrow> case_Smooth env cmd
      | Default \<Rightarrow> case_default env)"

subsection \<open>Reading a sequence of events\<close>

text \<open>The filter an event carries, if it carries one.\<close>

fun state_of :: "Event \<Rightarrow> Filter option" where
  "state_of (Construct f) = Some f"
| "state_of (Configure c f) = Some f"
| "state_of (Apply f) = Some f"
| "state_of (Returned f) = Some f"
| "state_of ev = None"

fun states :: "Event list \<Rightarrow> Filter list" where
  "states [] = []"
| "states (ev # tr) = (case state_of ev of None \<Rightarrow> states tr | Some f \<Rightarrow> f # states tr)"

text \<open>Whether an event is the start of the call operator.\<close>

fun is_Apply :: "Event \<Rightarrow> bool" where
  "is_Apply (Apply f) = True"
| "is_Apply ev = False"

subsection \<open>Sample inputs\<close>

text \<open>
  A 4-dimensional image of 2 x 1 x 1 x 2 voxels stored as Float32, with voxel sizes 1, 2, 3
  and 4, and collaborators that never throw: the constructors copy the axes of the input,
  the FFT filter's datatype is complex, the stride selection and the call operators leave
  what they are given.
\<close>

definition sample_header :: Header where
  "sample_header =
     \<lparr>hdr_axes = [\<lparr>axis_size = 2, spacing = 1, stride = 1\<rparr>,
                  \<lparr>axis_size = 1, spacing = 2, stride = 2\<rparr>,
                  \<lparr>axis_size = 1, spacing = 3, stride = 3\<rparr>,
                  \<lparr>axis_size = 2, spacing = 4, stride = 4\<rparr>],
      hdr_datatype = Float32\<rparr>"

definition sample_env :: Collab where
  "sample_env =
     \<lparr>NDEBUG = False,
      throws = (\<lambda>ev. None),
      open_cdouble = (\<lambda>name. \<lparr>header = sample_header, voxels = [- 1, 2, - 3, 4]\<rparr>),
      open_float = (\<lambda>name. \<lparr>header = sample_header, voxels = [- 1, 2, - 3, 4]\<rparr>),
      new_FFT = (\<lambda>input inverse.
        \<lparr>hdr_axes = hdr_axes (header input), hdr_datatype = CFloat64, message = [],
         fft_axes = [0, 1, 2], fft_inverse = inverse, fft_centre_zero = False\<rparr>),
      new_Gradient = (\<lambda>input magnitude.
        \<lparr>hdr_axes = hdr_axes (header input), hdr_datatype = Float32, message = [],
         gradient_magnitude = magnitude, gradient_stdev = [], gradient_wrt_scanner = False\<rparr>),
      new_Median = (\<lambda>input.
        \<lparr>hdr_axes = hdr_axes (header input), hdr_datatype = Float32, message = [],
         median_extent = [3, 3, 3]\<rparr>),
      new_Smooth = (\<lambda>input.
        \<lparr>hdr_axes = hdr_axes (header input), hdr_datatype = Float32, message = [],
         smooth_stdev = [1, 2, 3], smooth_extent = []\<rparr>),
      set_from_command_line = (\<lambda>axes. axes),
      apply_FFT = (\<lambda>flt input. voxels input),
      apply_Gradient = (\<lambda>flt input. voxels input),
      apply_Median = (\<lambda>flt input. voxels input),
      apply_Smooth = (\<lambda>flt input. voxels input)\<rparr>"

text \<open>The same collaborators, with an input image that cannot be opened.\<close>

definition sample_env_no_input :: Collab where
  "sample_env_no_input =
     sample_env\<lparr>throws := (\<lambda>ev. case ev of
        Image_open name \<Rightarrow> Some (Exception ''cannot open the input image'')
      | _ \<Rightarrow> None)\<rparr>"

text \<open>The same collaborators, in a build with \<open>NDEBUG\<close> defined.\<close>

definition sample_env_NDEBUG :: Collab where
  "sample_env_NDEBUG = sample_env\<lparr>NDEBUG := True\<rparr>"

text \<open>\<open>mrfilter in.mif name out.mif\<close> with no option, \<open>i\<close> being the index of the name.\<close>

definition sample_cmd :: "string \<Rightarrow> nat \<Rightarrow> Cmdline" where
  "sample_cmd name i =
     \<lparr>argument0 = ''in.mif'', argument1 = name, filter_index = i,
      argument2 = ''out.mif'',
      opt_axes = None, opt_inverse = False, opt_magnitude = False, opt_centre_zero = False,
      opt_stdev = None, opt_scanner = False, opt_extent = None, opt_fwhm = None\<rparr>"

text \<open>\<open>mrfilter in.mif fft out.mif -magnitude\<close>, and the filter as configured for it.\<close>

definition sample_fft_magnitude :: Cmdline where
  "sample_fft_magnitude = (sample_cmd ''fft'' 0)\<lparr>opt_magnitude := True\<rparr>"

definition sample_FFT :: FFT where
  "sample_FFT =
     \<lparr>hdr_axes = hdr_axes sample_header, hdr_datatype = CFloat64,
      message = ''applying FFT filter to image in.mif...'',
      fft_axes = [0, 1, 2], fft_inverse = False, fft_centre_zero = False\<rparr>"

text \<open>\<open>mrfilter in.mif smooth out.mif -stdev 1 -fwhm 2\<close>\<close>

definition sample_smooth_both :: Cmdline where
  "sample_smooth_both = (sample_cmd ''smooth'' 3)\<lparr>opt_stdev := Some [1], opt_fwhm := Some [2]\<rparr>"

text \<open>\<open>mrfilter in.mif smooth out.mif -fwhm 2.3548,4.7096\<close>\<close>

definition sample_smooth_fwhm :: Cmdline where
  "sample_smooth_fwhm = (sample_cmd ''smooth'' 3)\<lparr>opt_fwhm := Some [2.3548, 4.7096]\<rparr>"

text \<open>The smooth filter as the sample constructor builds it.\<close>

definition sample_Smooth :: Smooth where
  "sample_Smooth = new_Smooth sample_env (open_float sample_env ''in.mif'')"

text \<open>The gradient filter as the sample constructor builds it, without \<open>magnitude\<close>.\<close>

definition sample_Gradient :: Gradient where
  "sample_Gradient = new_Gradient sample_env (open_float sample_env ''in.mif'') False"

text \<open>An adapter on an invalid image of no axes, with 7 as the value if empty.\<close>

definition sample_invalid :: "int ImageType" where
  "sample_invalid =
     \<lparr>img_valid = False, img_size = [], img_index = [], img_voxels = (\<lambda>pos. 1),
      touched = []\<rparr>"

definition sample_adapter :: "int AllowEmpty" where
  "sample_adapter = AllowEmpty sample_invalid (Some 7)"

section \<open>Sequencing, and the loops as list functions\<close>

lemma seq_return [simp]: "seq (return x) k = k x"
  by (simp add: seq_def return_def)

lemma seq_throw [simp]: "seq (throw e) k = ([], Inl e)"
  by (simp add: seq_def throw_def)

lemma seq_lift [simp]:
  "seq (lift r) k = (case r of Inl e \<Rightarrow> ([], Inl e) | Inr x \<Rightarrow> k x)"
  by (simp add: seq_def lift_def split: sum.splits)

lemma seq_emit [simp]: "seq (emit ev x) k = (case k x of (tr, r) \<Rightarrow> (ev # tr, r))"
  by (simp add: seq_def emit_def)

lemma seq_call [simp]:
  "seq (call env ev x) k =
     (case throws env ev of
        None \<Rightarrow> (case k x of (tr, r) \<Rightarrow> (ev # tr, r))
      | Some e \<Rightarrow> ([ev], Inl e))"
  by (simp add: seq_def call_def split: option.splits)

lemma seq_Inr [simp]: "seq (tr, Inr x) k = (case k x of (tr', r) \<Rightarrow> (tr @ tr', r))"
  by (simp add: seq_def)

lemma seq_Inl [simp]: "seq (tr, Inl e) k = (tr, Inl e)"
  by (simp add: seq_def)

lemma return_eq [simp]: "return x = (tr, r) \<longleftrightarrow> tr = [] \<and> r = Inr x"
  by (auto simp add: return_def)

lemma throw_eq [simp]: "throw e = (tr, r) \<longleftrightarrow> tr = [] \<and> r = Inl e"
  by (auto simp add: throw_def)

lemma seq_FFT_call [simp]:
  "seq (FFT_call env flt input h) k =
     (case throws env (Apply (FFT_filter flt)) of
        None \<Rightarrow>
          (case k (flt, \<lparr>header = h, voxels = apply_FFT env flt input\<rparr>) of
             (tr, r) \<Rightarrow> (Apply (FFT_filter flt) # Returned (FFT_filter flt) # tr, r))
      | Some e \<Rightarrow> ([Apply (FFT_filter flt)], Inl e))"
  by (simp add: FFT_call_def call_operator_def seq_def call_def emit_def
      split: option.splits prod.splits)

lemma seq_Gradient_call [simp]:
  "seq (Gradient_call env flt input h) k =
     (case throws env (Apply (Gradient_filter flt)) of
        None \<Rightarrow>
          (case k (flt, \<lparr>header = h, voxels = apply_Gradient env flt input\<rparr>) of
             (tr, r) \<Rightarrow> (Apply (Gradient_filter flt) # Returned (Gradient_filter flt) # tr, r))
      | Some e \<Rightarrow> ([Apply (Gradient_filter flt)], Inl e))"
  by (simp add: Gradient_call_def call_operator_def seq_def call_def emit_def
      split: option.splits prod.splits)

lemma seq_Median_call [simp]:
  "seq (Median_call env flt input h) k =
     (case throws env (Apply (Median_filter flt)) of
        None \<Rightarrow>
          (case k (flt, \<lparr>header = h, voxels = apply_Median env flt input\<rparr>) of
             (tr, r) \<Rightarrow> (Apply (Median_filter flt) # Returned (Median_filter flt) # tr, r))
      | Some e \<Rightarrow> ([Apply (Median_filter flt)], Inl e))"
  by (simp add: Median_call_def call_operator_def seq_def call_def emit_def
      split: option.splits prod.splits)

lemma seq_Smooth_call [simp]:
  "seq (Smooth_call env flt input h) k =
     (case throws env (Apply (Smooth_filter flt)) of
        None \<Rightarrow>
          (case k (flt, \<lparr>header = h, voxels = apply_Smooth env flt input\<rparr>) of
             (tr, r) \<Rightarrow> (Apply (Smooth_filter flt) # Returned (Smooth_filter flt) # tr, r))
      | Some e \<Rightarrow> ([Apply (Smooth_filter flt)], Inl e))"
  by (simp add: Smooth_call_def call_operator_def seq_def call_def emit_def
      split: option.splits prod.splits)

lemmas configure_defs =
  FFT_configure_def Gradient_configure_def Median_configure_def Smooth_configure_def

lemma fwhm_loop_take_drop:
  "d \<le> length xs \<Longrightarrow> fwhm_loop d xs = take d xs @ map (\<lambda>x. x / 2.3548) (drop d xs)"
proof (induction d xs rule: fwhm_loop.induct)
  case (1 d stdevs)
  show ?case
  proof (cases "d < length stdevs")
    case True
    then have "fwhm_loop d stdevs = fwhm_loop (Suc d) (stdevs[d := stdevs ! d / 2.3548])"
      by (simp add: fwhm_loop.simps [of d stdevs])
    also have "\<dots> = take (Suc d) (stdevs[d := stdevs ! d / 2.3548])
        @ map (\<lambda>x. x / 2.3548) (drop (Suc d) (stdevs[d := stdevs ! d / 2.3548]))"
      using True by (intro "1.IH") simp_all
    also have "\<dots> = take d stdevs @ map (\<lambda>x. x / 2.3548) (drop d stdevs)"
      using True by (simp add: take_Suc_conv_app_nth Cons_nth_drop_Suc [symmetric])
    finally show ?thesis .
  next
    case False
    then have "fwhm_loop d stdevs = stdevs"
      by (subst fwhm_loop.simps) simp
    with False "1.prems" show ?thesis
      by simp
  qed
qed

lemma fwhm_loop_map: "fwhm_loop 0 fwhm = map (\<lambda>x. x / 2.3548) fwhm"
  by (simp add: fwhm_loop_take_drop)

lemma magnitude_loop_map: "magnitude_loop temp = map cmod temp"
  by (induction temp) simp_all

lemma any_negative_iff: "any_negative stdev \<longleftrightarrow> (\<exists>x\<in>set stdev. x < 0)"
  by (induction stdev) auto

lemma voxsize_loop_3:
  assumes "3 \<le> length (hdr_axes flt)" and "length stdev = length (hdr_axes flt)"
  shows "voxsize_loop flt 0 3 stdev =
    Inr (stdev[0 := spacing (hdr_axes flt ! 0), Suc 0 := spacing (hdr_axes flt ! Suc 0),
               Suc (Suc 0) := spacing (hdr_axes flt ! Suc (Suc 0))])"
  using assms by (auto simp add: numeral_3_eq_3 Header_voxsize_def)

lemma case_Gradient_rejected:
  assumes "filter_index cmd = 1"
    and "G = new_Gradient env (open_float env (argument0 cmd)) (opt_magnitude cmd)"
    and "throws env (Image_open (argument0 cmd)) = None"
    and "throws env (Construct (Gradient_filter G)) = None"
    and "Gradient_stdev (opt_stdev cmd) G = Inl e"
  shows "run env cmd = ([Image_open (argument0 cmd), Construct (Gradient_filter G)], Inl e)"
  using assms by (simp add: run_def switch_def case_Gradient_def Let_def)

lemma case_Gradient_accepted:
  assumes "filter_index cmd = 1"
    and "G = new_Gradient env (open_float env (argument0 cmd)) (opt_magnitude cmd)"
    and "throws env (Image_open (argument0 cmd)) = None"
    and "throws env (Construct (Gradient_filter G)) = None"
    and "Gradient_stdev (opt_stdev cmd) G = Inr stdev"
  shows "take 3 (fst (run env cmd)) =
    [Image_open (argument0 cmd), Construct (Gradient_filter G),
     Configure (set_stdev stdev) (Gradient_filter (Gradient_set_stdev stdev G))]"
  using assms
  by (simp add: run_def switch_def case_Gradient_def Let_def configure_defs numeral_3_eq_3
      split: option.splits prod.splits)

lemma truncate_assign [simp]:
  "Header.truncate (flt\<lparr>hdr_datatype := t\<rparr>) = (Header.truncate flt)\<lparr>hdr_datatype := t\<rparr>"
  by (simp add: Header.truncate_def)

lemma sample_fft_magnitude_run:
  "run sample_env sample_fft_magnitude =
     ([Image_open ''in.mif'',
       Construct (FFT_filter (sample_FFT\<lparr>message := []\<rparr>)),
       Configure (set_centre_zero False) (FFT_filter (sample_FFT\<lparr>message := []\<rparr>)),
       Configure Stride_set_from_command_line (FFT_filter (sample_FFT\<lparr>message := []\<rparr>)),
       Configure (set_message ''applying FFT filter to image in.mif...'') (FFT_filter sample_FFT),
       Image_scratch (Header.truncate sample_FFT),
       Apply (FFT_filter sample_FFT),
       Returned (FFT_filter sample_FFT),
       Configure (assign_datatype Float32) (FFT_filter (sample_FFT\<lparr>hdr_datatype := Float32\<rparr>)),
       Image_create ''out.mif'' ((Header.truncate sample_FFT)\<lparr>hdr_datatype := Float32\<rparr>),
       Loop_in_order],
      Inr (Float_image ''out.mif''
        \<lparr>header = \<lparr>hdr_axes = hdr_axes sample_header, hdr_datatype = Float32\<rparr>,
         voxels = [1, 2, 3, 4]\<rparr>))"
  by (simp add: sample_fft_magnitude_def sample_cmd_def sample_env_def sample_FFT_def
      run_def switch_def case_FFT_def configure_defs FFT_message_def Header.truncate_def
      Let_def return_def)

lemma sample_fft_run:
  "run sample_env (sample_cmd ''fft'' 0) =
     ([Image_open ''in.mif'',
       Construct (FFT_filter (sample_FFT\<lparr>message := []\<rparr>)),
       Configure (set_centre_zero False) (FFT_filter (sample_FFT\<lparr>message := []\<rparr>)),
       Configure Stride_set_from_command_line (FFT_filter (sample_FFT\<lparr>message := []\<rparr>)),
       Configure (set_message ''applying FFT filter to image in.mif...'') (FFT_filter sample_FFT),
       Image_create ''out.mif'' (Header.truncate sample_FFT),
       Apply (FFT_filter sample_FFT),
       Returned (FFT_filter sample_FFT)],
      Inr (CDouble_image ''out.mif''
        \<lparr>header = \<lparr>hdr_axes = hdr_axes sample_header, hdr_datatype = CFloat64\<rparr>,
         voxels = [- 1, 2, - 3, 4]\<rparr>))"
  by (simp add: sample_cmd_def sample_env_def sample_FFT_def
      run_def switch_def case_FFT_def configure_defs FFT_message_def Header.truncate_def
      Let_def return_def)

lemma sample_env_quiet: "\<forall>ev. throws sample_env ev = None"
  by (simp add: sample_env_def)

lemma sample_gradient_stdev:
  "Gradient_stdev (opt_stdev (sample_cmd ''gradient'' 1))
     (new_Gradient sample_env (open_float sample_env (argument0 (sample_cmd ''gradient'' 1)))
        (opt_magnitude (sample_cmd ''gradient'' 1))) = Inr [1, 2, 3, 0]"
  by (simp add: Gradient_stdev_def Header_ndim_def Header_voxsize_def sample_cmd_def
      sample_env_def sample_header_def numeral_3_eq_3)

section \<open>The shape of a run\<close>

text \<open>
  Every sequence of events of \<open>run\<close> holds the start of the call operator at most once.
  The events before it construct and configure the filter; the operator then either throws,
  which ends the run, or returns.
\<close>

lemma apply_decomposition:
  assumes "tr = pre @ Apply s # post"
    and "\<not> list_ex is_Apply (tl (dropWhile (\<lambda>ev. \<not> is_Apply ev) tr))"
  shows "pre = takeWhile (\<lambda>ev. \<not> is_Apply ev) tr
    \<and> Apply s # post = dropWhile (\<lambda>ev. \<not> is_Apply ev) tr"
  using assms
proof (induction pre arbitrary: tr)
  case Nil
  then show ?case by simp
next
  case (Cons e pre)
  show ?case
  proof (cases "is_Apply e")
    case True
    with Cons.prems show ?thesis
      by (simp add: list_ex_iff)
  next
    case False
    with Cons.prems have "\<not> list_ex is_Apply (tl (dropWhile (\<lambda>ev. \<not> is_Apply ev) (pre @ Apply s # post)))"
      by simp
    with Cons.IH [of "pre @ Apply s # post"] False Cons.prems(1) show ?thesis
      by simp
  qed
qed


lemma index_cases:
  "filter_index cmd < length filters \<Longrightarrow>
     filter_index cmd = 0 \<or> filter_index cmd = 1 \<or> filter_index cmd = 2 \<or> filter_index cmd = 3"
  by (simp add: filters_def) arith

lemma run_shape:
  assumes "run env cmd = (tr, r)"
  shows "dropWhile (\<lambda>ev. \<not> is_Apply ev) tr = [] \<or>
     (\<exists>f. states (takeWhile (\<lambda>ev. \<not> is_Apply ev) tr) \<noteq> []
        \<and> last (states (takeWhile (\<lambda>ev. \<not> is_Apply ev) tr)) = f
        \<and> \<not> list_ex is_Apply (takeWhile (\<lambda>ev. \<not> is_Apply ev) tr)
        \<and> ((dropWhile (\<lambda>ev. \<not> is_Apply ev) tr = [Apply f] \<and> throws env (Apply f) \<noteq> None
               \<and> (\<exists>e. r = Inl e))
            \<or> (\<exists>post. dropWhile (\<lambda>ev. \<not> is_Apply ev) tr = Apply f # Returned f # post
                  \<and> \<not> list_ex is_Apply post)))"
proof (cases "switch (filter_index cmd)")
  case Case_0
  with assms show ?thesis
    by (auto simp add: run_def case_FFT_def configure_defs Let_def
        split: option.splits prod.splits if_splits)
next
  case Case_1
  with assms show ?thesis
    by (auto simp add: run_def case_Gradient_def configure_defs Let_def
        split: option.splits prod.splits sum.splits)
next
  case Case_2
  with assms show ?thesis
    by (auto simp add: run_def case_Median_def configure_defs Let_def
        split: option.splits prod.splits)
next
  case Case_3
  with assms show ?thesis
    by (auto simp add: run_def case_Smooth_def configure_defs Let_def
        split: option.splits prod.splits if_splits)
next
  case Default
  with assms show ?thesis
    by (auto simp add: run_def case_default_def return_def throw_def split: if_splits)
qed

lemma run_returns_after_call:
  assumes "run env cmd = (tr, Inr out)" and "filter_index cmd < length filters"
  shows "\<exists>f post. dropWhile (\<lambda>ev. \<not> is_Apply ev) tr = Apply f # Returned f # post"
proof -
  from index_cases [OF assms(2)] consider "filter_index cmd = 0" | "filter_index cmd = 1"
    | "filter_index cmd = 2" | "filter_index cmd = 3"
    by auto
  then show ?thesis
  proof cases
    case 1
    with assms(1) show ?thesis
      by (auto simp add: run_def switch_def case_FFT_def configure_defs Let_def
          split: option.splits prod.splits if_splits)
  next
    case 2
    with assms(1) show ?thesis
      by (auto simp add: run_def switch_def case_Gradient_def configure_defs Let_def
          split: option.splits prod.splits sum.splits)
  next
    case 3
    with assms(1) show ?thesis
      by (auto simp add: run_def switch_def case_Median_def configure_defs Let_def
          split: option.splits prod.splits)
  next
    case 4
    with assms(1) show ?thesis
      by (auto simp add: run_def switch_def case_Smooth_def configure_defs Let_def
          split: option.splits prod.splits if_splits)
  qed
qed

lemma run_total:
  assumes "\<forall>ev. throws env ev = None" and "filter_index cmd < length filters"
    and "filter_index cmd = 1 \<longrightarrow>
      (\<exists>stdev. Gradient_stdev (opt_stdev cmd)
         (new_Gradient env (open_float env (argument0 cmd)) (opt_magnitude cmd)) = Inr stdev)"
    and "filter_index cmd = 3 \<longrightarrow> opt_stdev cmd = None \<or> opt_fwhm cmd = None"
  shows "\<exists>tr out. run env cmd = (tr, Inr out)"
proof -
  from index_cases [OF assms(2)] consider "filter_index cmd = 0" | "filter_index cmd = 1"
    | "filter_index cmd = 2" | "filter_index cmd = 3"
    by auto
  then show ?thesis
  proof cases
    case 1
    with assms(1) show ?thesis
      by (simp add: run_def switch_def case_FFT_def configure_defs Let_def return_def
          split: option.splits)
  next
    case 2
    with assms(1,3) show ?thesis
      by (auto simp add: run_def switch_def case_Gradient_def configure_defs Let_def return_def
          split: option.splits)
  next
    case 3
    with assms(1) show ?thesis
      by (simp add: run_def switch_def case_Median_def configure_defs Let_def return_def
          split: option.splits)
  next
    case 4
    with assms(1,4) show ?thesis
      by (auto simp add: run_def switch_def case_Smooth_def configure_defs Let_def return_def
          split: option.splits)
  qed
qed

text \<open>
  What \<open>run\<close> does once the call operator has returned: nothing, except for the FFT filter
  with \<open>magnitude\<close>, where it assigns Float32 to the filter's datatype, creates the output
  image from the filter and loops over the voxels.
\<close>

lemma run_after_call_operator:
  assumes "run env cmd = (tr, Inr out)" and "filter_index cmd < length filters"
  shows "if filter_index cmd = 0 \<and> opt_magnitude cmd
    then \<exists>flt. dropWhile (\<lambda>ev. \<not> is_Apply ev) tr =
      [Apply (FFT_filter flt), Returned (FFT_filter flt),
       Configure (assign_datatype Float32) (FFT_filter (flt\<lparr>hdr_datatype := Float32\<rparr>)),
       Image_create (argument2 cmd) ((Header.truncate flt)\<lparr>hdr_datatype := Float32\<rparr>),
       Loop_in_order]
    else \<exists>f. dropWhile (\<lambda>ev. \<not> is_Apply ev) tr = [Apply f, Returned f]"
proof -
  from index_cases [OF assms(2)] consider "filter_index cmd = 0" | "filter_index cmd = 1"
    | "filter_index cmd = 2" | "filter_index cmd = 3"
    by auto
  then show ?thesis
  proof cases
    case 1
    with assms(1) show ?thesis
      by (auto simp add: run_def switch_def case_FFT_def configure_defs Let_def
          split: option.splits prod.splits if_splits)
  next
    case 2
    with assms(1) show ?thesis
      by (auto simp add: run_def switch_def case_Gradient_def configure_defs Let_def
          split: option.splits prod.splits sum.splits)
  next
    case 3
    with assms(1) show ?thesis
      by (auto simp add: run_def switch_def case_Median_def configure_defs Let_def
          split: option.splits prod.splits)
  next
    case 4
    with assms(1) show ?thesis
      by (auto simp add: run_def switch_def case_Smooth_def configure_defs Let_def
          split: option.splits prod.splits if_splits)
  qed
qed

section \<open>Properties of the adapter\<close>

text \<open>
  Claim C2. For an AllowEmpty adapter whose wrapped parent is invalid: \<open>size (axis)\<close> is 0 on
  every axis, reading \<open>index (axis)\<close> gives 0, reading \<open>value ()\<close> gives the configured
  default, and \<open>reset ()\<close>, \<open>move_index (axis, increment)\<close> and the write of a value return
  normally and leave the adapter, its parent and the parent's access record exactly as they
  were: the parent is neither read nor written.
\<close>

theorem allow_empty_invalid_parent:
  assumes "\<not> valid a"
  shows "size_axis a axis = Inr (0, a) \<and> index a axis = Inr (0, a)
    \<and> value a = Inr (value_if_empty a, a)
    \<and> reset a = Inr a \<and> move_index a axis increment = Inr a \<and> set_value a val = Inr a"
  using assms
  by (simp add: size_axis_def index_def value_def reset_def move_index_def set_value_def)

theorem allow_empty_invalid_parent_witness:
  "\<not> valid sample_adapter
   \<and> size_axis sample_adapter 2 = Inr (0, sample_adapter)
   \<and> index sample_adapter 2 = Inr (0, sample_adapter)
   \<and> value sample_adapter = Inr (7, sample_adapter)
   \<and> reset sample_adapter = Inr sample_adapter
   \<and> move_index sample_adapter 2 5 = Inr sample_adapter
   \<and> set_value sample_adapter 9 = Inr sample_adapter"
proof -
  have invalid: "\<not> valid sample_adapter"
    by (simp add: valid_def sample_adapter_def AllowEmpty_def sample_invalid_def)
  have "value_if_empty sample_adapter = 7"
    by (simp add: sample_adapter_def AllowEmpty_def)
  with invalid allow_empty_invalid_parent [OF invalid, of 2 5 9] show ?thesis
    by simp
qed

text \<open>
  Claim C10. An AllowEmpty adapter constructed without the argument \<open>value_if_empty\<close> holds
  the zero of the image's value type as its default, so that reading \<open>value ()\<close> on an
  invalid parent gives 0 (and leaves the parent alone).
\<close>

theorem allow_empty_default_value:
  assumes "\<not> img_valid original"
  shows "value_if_empty (AllowEmpty original None) = 0
    \<and> value (AllowEmpty original None) = Inr (0, AllowEmpty original None)"
  using assms by (simp add: AllowEmpty_def value_def valid_def)

text \<open>The sample invalid image, whose voxels would read as 1.\<close>

theorem allow_empty_default_value_witness:
  "\<not> img_valid sample_invalid
   \<and> value (AllowEmpty sample_invalid None) = Inr (0, AllowEmpty sample_invalid None)
   \<and> img_voxels sample_invalid (img_index sample_invalid) = 1"
proof -
  have i: "\<not> img_valid sample_invalid"
    by (simp add: sample_invalid_def)
  have "img_voxels sample_invalid (img_index sample_invalid) = 1"
    by (simp add: sample_invalid_def)
  with i allow_empty_default_value [OF i] show ?thesis
    by simp
qed

section \<open>Properties of the driver\<close>

subsection \<open>The smooth filter: \<open>stdev\<close> and \<open>fwhm\<close> together\<close>

text \<open>
  Claim C1, as the code has it. When the smooth filter is given both \<open>stdev\<close> and \<open>fwhm\<close>,
  \<open>run\<close> always fails, and it never creates an image, applies the filter or loops over
  voxels. The check comes after the input image has been opened, the filter constructed and
  \<open>set_stdev\<close> called with the \<open>stdev\<close> list: when none of these three calls throws, the
  failure is the exception "the stdev and FWHM options are mutually exclusive." and these
  three calls are all that \<open>run\<close> has done; when one of them throws, the failure is the
  exception of the first that throws, and \<open>run\<close> ends with that call. (The code throws
  \<open>Exception\<close>; it has no separate class of configuration errors.)
\<close>

theorem smooth_stdev_fwhm_exclusive:
  assumes "filter_index cmd = 3" and "opt_stdev cmd = Some s" and "opt_fwhm cmd = Some w"
  shows "let f = new_Smooth env (open_float env (argument0 cmd));
             e1 = Image_open (argument0 cmd);
             e2 = Construct (Smooth_filter f);
             e3 = Configure (set_stdev s) (Smooth_filter (f\<lparr>smooth_stdev := s\<rparr>));
             before = [e1, e2, e3]
         in (\<exists>e. snd (run env cmd) = Inl e)
          \<and> \<not> list_ex voxel_access (fst (run env cmd))
          \<and> ((\<forall>ev\<in>set before. throws env ev = None) \<longrightarrow>
               run env cmd = (before,
                 Inl (Exception ''the stdev and FWHM options are mutually exclusive.'')))
          \<and> (\<forall>x. throws env e1 = Some x \<longrightarrow> run env cmd = ([e1], Inl x))
          \<and> (\<forall>x. throws env e1 = None \<and> throws env e2 = Some x \<longrightarrow>
                run env cmd = ([e1, e2], Inl x))
          \<and> (\<forall>x. throws env e1 = None \<and> throws env e2 = None \<and> throws env e3 = Some x \<longrightarrow>
                run env cmd = ([e1, e2, e3], Inl x))"
  using assms
  by (simp add: run_def switch_def case_Smooth_def configure_defs Let_def split: option.splits)

text \<open>
  The sample command line \<open>-stdev 1 -fwhm 2\<close>, with collaborators that do not throw and
  with an input image that cannot be opened.
\<close>

theorem smooth_stdev_fwhm_exclusive_witness:
  "filter_index sample_smooth_both = 3 \<and> opt_stdev sample_smooth_both = Some [1]
    \<and> opt_fwhm sample_smooth_both = Some [2]
    \<and> run sample_env sample_smooth_both =
        ([Image_open ''in.mif'', Construct (Smooth_filter sample_Smooth),
          Configure (set_stdev [1]) (Smooth_filter (sample_Smooth\<lparr>smooth_stdev := [1]\<rparr>))],
         Inl (Exception ''the stdev and FWHM options are mutually exclusive.''))
    \<and> throws sample_env_no_input (Image_open ''in.mif'') =
         Some (Exception ''cannot open the input image'')
    \<and> run sample_env_no_input sample_smooth_both =
        ([Image_open ''in.mif''], Inl (Exception ''cannot open the input image''))"
  using smooth_stdev_fwhm_exclusive [of sample_smooth_both "[1]" "[2]" sample_env]
    smooth_stdev_fwhm_exclusive [of sample_smooth_both "[1]" "[2]" sample_env_no_input]
  by (simp add: sample_smooth_both_def sample_Smooth_def sample_cmd_def sample_env_def
      sample_env_no_input_def Let_def)

text \<open>
  The claim as stated fails when the input image cannot be opened: both options are
  supplied, and the invocation fails with the exception of \<open>Image<float>::open\<close>, which
  \<open>run\<close> calls before it looks at the options.
\<close>

theorem smooth_stdev_fwhm_input_not_opened:
  "filter_index sample_smooth_both = 3 \<and> opt_stdev sample_smooth_both = Some [1]
    \<and> opt_fwhm sample_smooth_both = Some [2]
    \<and> run sample_env_no_input sample_smooth_both =
         ([Image_open ''in.mif''], Inl (Exception ''cannot open the input image''))"
  by (simp add: sample_smooth_both_def sample_cmd_def sample_env_no_input_def sample_env_def
      run_def switch_def case_Smooth_def)

subsection \<open>The FFT filter\<close>

text \<open>
  Claim C4. For the FFT filter, the input is opened as an image of complex values whatever
  the datatype of the source, and the call operator runs on it. Without \<open>magnitude\<close> the
  output is the complex-valued image the call operator writes, created from the filter's
  header. With \<open>magnitude\<close> the call operator writes to a complex scratch image created from
  the filter's header, and the output is a real-valued image whose header is that header
  with the datatype Float32 (the same axes) and whose voxels are the moduli of the scratch
  image's voxels, in order. When no collaborator throws, \<open>run\<close> returns normally, with
  that output.
\<close>

theorem fft_output:
  assumes "filter_index cmd = 0"
  shows "(\<forall>tr out. run env cmd = (tr, Inr out) \<longrightarrow>
          (\<exists>flt. Apply (FFT_filter flt) \<in> set tr \<and>
           (if opt_magnitude cmd
            then Image_scratch (Header.truncate flt) \<in> set tr \<and>
                 out = Float_image (argument2 cmd)
                   \<lparr>header = (Header.truncate flt)\<lparr>hdr_datatype := Float32\<rparr>,
                    voxels = map cmod (apply_FFT env flt (open_cdouble env (argument0 cmd)))\<rparr>
            else out = CDouble_image (argument2 cmd)
                   \<lparr>header = Header.truncate flt,
                    voxels = apply_FFT env flt (open_cdouble env (argument0 cmd))\<rparr>)))
     \<and> ((\<forall>ev. throws env ev = None) \<longrightarrow> (\<exists>tr out. run env cmd = (tr, Inr out)))"
proof (intro conjI allI impI)
  fix tr out
  assume "run env cmd = (tr, Inr out)"
  with assms show "\<exists>flt. Apply (FFT_filter flt) \<in> set tr \<and>
           (if opt_magnitude cmd
            then Image_scratch (Header.truncate flt) \<in> set tr \<and>
                 out = Float_image (argument2 cmd)
                   \<lparr>header = (Header.truncate flt)\<lparr>hdr_datatype := Float32\<rparr>,
                    voxels = map cmod (apply_FFT env flt (open_cdouble env (argument0 cmd)))\<rparr>
            else out = CDouble_image (argument2 cmd)
                   \<lparr>header = Header.truncate flt,
                    voxels = apply_FFT env flt (open_cdouble env (argument0 cmd))\<rparr>)"
    by (auto simp add: run_def switch_def case_FFT_def configure_defs Let_def magnitude_loop_map
        split: option.splits prod.splits if_splits)
next
  assume "\<forall>ev. throws env ev = None"
  with assms show "\<exists>tr out. run env cmd = (tr, Inr out)"
    by (simp add: run_def switch_def case_FFT_def configure_defs Let_def return_def
        split: option.splits)
qed

text \<open>The samples \<open>fft\<close> and \<open>fft -magnitude\<close> on a source stored as Float32.\<close>

theorem fft_output_witness:
  "filter_index (sample_cmd ''fft'' 0) = 0 \<and> filter_index sample_fft_magnitude = 0
   \<and> (\<forall>ev. throws sample_env ev = None)
   \<and> hdr_datatype (header (open_cdouble sample_env ''in.mif'')) = Float32
   \<and> (\<exists>tr out. run sample_env (sample_cmd ''fft'' 0) = (tr, Inr out))
   \<and> snd (run sample_env (sample_cmd ''fft'' 0)) =
       Inr (CDouble_image ''out.mif''
        \<lparr>header = \<lparr>hdr_axes = hdr_axes sample_header, hdr_datatype = CFloat64\<rparr>,
         voxels = [- 1, 2, - 3, 4]\<rparr>)
   \<and> (\<exists>flt. Apply (FFT_filter flt) \<in> set (fst (run sample_env (sample_cmd ''fft'' 0)))
        \<and> Header.truncate flt = \<lparr>hdr_axes = hdr_axes sample_header, hdr_datatype = CFloat64\<rparr>
        \<and> apply_FFT sample_env flt (open_cdouble sample_env ''in.mif'') = [- 1, 2, - 3, 4])
   \<and> (\<exists>tr out. run sample_env sample_fft_magnitude = (tr, Inr out))
   \<and> snd (run sample_env sample_fft_magnitude) =
       Inr (Float_image ''out.mif''
        \<lparr>header = \<lparr>hdr_axes = hdr_axes sample_header, hdr_datatype = Float32\<rparr>,
         voxels = [1, 2, 3, 4]\<rparr>)
   \<and> (\<exists>flt. Apply (FFT_filter flt) \<in> set (fst (run sample_env sample_fft_magnitude))
        \<and> Image_scratch (Header.truncate flt) \<in> set (fst (run sample_env sample_fft_magnitude))
        \<and> hdr_axes flt = hdr_axes sample_header
        \<and> map cmod (apply_FFT sample_env flt (open_cdouble sample_env ''in.mif'')) = [1, 2, 3, 4])"
proof -
  have idx: "filter_index (sample_cmd ''fft'' 0) = 0" "filter_index sample_fft_magnitude = 0"
    and mag: "opt_magnitude sample_fft_magnitude" "\<not> opt_magnitude (sample_cmd ''fft'' 0)"
    and args: "argument0 sample_fft_magnitude = ''in.mif''"
      "argument2 sample_fft_magnitude = ''out.mif''"
      "argument0 (sample_cmd ''fft'' 0) = ''in.mif''"
      "argument2 (sample_cmd ''fft'' 0) = ''out.mif''"
    by (simp_all add: sample_fft_magnitude_def sample_cmd_def)
  have src: "hdr_datatype (header (open_cdouble sample_env ''in.mif'')) = Float32"
    by (simp add: sample_env_def sample_header_def)
  note plain = fft_output [OF idx(1), of sample_env]
  note magn = fft_output [OF idx(2), of sample_env]
  from plain sample_env_quiet have t1: "\<exists>tr out. run sample_env (sample_cmd ''fft'' 0) = (tr, Inr out)"
    by blast
  from magn sample_env_quiet have t2: "\<exists>tr out. run sample_env sample_fft_magnitude = (tr, Inr out)"
    by blast
  from plain sample_fft_run mag args obtain flt1 where
    a1: "Apply (FFT_filter flt1) \<in> set (fst (run sample_env (sample_cmd ''fft'' 0)))" and
    h1: "Header.truncate flt1 = \<lparr>hdr_axes = hdr_axes sample_header, hdr_datatype = CFloat64\<rparr>" and
    v1: "apply_FFT sample_env flt1 (open_cdouble sample_env ''in.mif'') = [- 1, 2, - 3, 4]"
    by (auto simp add: sample_fft_run)
  from magn sample_fft_magnitude_run mag args obtain flt2 where
    a2: "Apply (FFT_filter flt2) \<in> set (fst (run sample_env sample_fft_magnitude))" and
    s2: "Image_scratch (Header.truncate flt2) \<in> set (fst (run sample_env sample_fft_magnitude))" and
    h2: "hdr_axes flt2 = hdr_axes sample_header" and
    v2: "map cmod (apply_FFT sample_env flt2 (open_cdouble sample_env ''in.mif'')) = [1, 2, 3, 4]"
    by (auto simp add: sample_fft_magnitude_run Header.truncate_def)
  have o1: "snd (run sample_env (sample_cmd ''fft'' 0)) =
       Inr (CDouble_image ''out.mif''
        \<lparr>header = \<lparr>hdr_axes = hdr_axes sample_header, hdr_datatype = CFloat64\<rparr>,
         voxels = [- 1, 2, - 3, 4]\<rparr>)"
    by (simp add: sample_fft_run)
  have o2: "snd (run sample_env sample_fft_magnitude) =
       Inr (Float_image ''out.mif''
        \<lparr>header = \<lparr>hdr_axes = hdr_axes sample_header, hdr_datatype = Float32\<rparr>,
         voxels = [1, 2, 3, 4]\<rparr>)"
    by (simp add: sample_fft_magnitude_run)
  from idx sample_env_quiet src t1 o1 a1 h1 v1 t2 o2 a2 s2 h2 v2 show ?thesis
    by (intro conjI exI [of _ flt1] exI [of _ flt2])
qed

subsection \<open>The filter's state around the call operator\<close>

text \<open>
  Claim C3. The state of the filter is fixed once construction and configuration are
  complete, and does not change between the start and the end of the call operator.
  Whatever the outcome of \<open>run\<close>: wherever the call operator starts, the filter has been
  constructed and configured before, the operator runs on the filter exactly as the last of
  these steps left it, it starts only this once, and it either throws, which ends the run, or
  returns with the filter in the state it started on. An invocation on a validated filter
  argument that returns normally has executed the call operator; and an invocation returns
  normally when no collaborator throws, the \<open>stdev\<close> list of the gradient filter passes
  its check, and the smooth filter is not given both \<open>stdev\<close> and \<open>fwhm\<close>. That the
  operator itself leaves the filter alone is the specification's word: its body is not part
  of the sources.
\<close>

theorem filter_state_around_call:
  "(\<forall>pre s post. fst (run env cmd) = pre @ Apply s # post \<longrightarrow>
       states pre \<noteq> [] \<and> last (states pre) = s
     \<and> \<not> list_ex is_Apply pre \<and> \<not> list_ex is_Apply post
     \<and> ((post = [] \<and> throws env (Apply s) \<noteq> None \<and> (\<exists>e. snd (run env cmd) = Inl e))
          \<or> (\<exists>post'. post = Returned s # post')))
   \<and> (\<forall>out. snd (run env cmd) = Inr out \<and> filter_index cmd < length filters \<longrightarrow>
        (\<exists>pre s post. fst (run env cmd) = pre @ Apply s # Returned s # post))
   \<and> ((\<forall>ev. throws env ev = None) \<and> filter_index cmd < length filters
        \<and> (filter_index cmd = 1 \<longrightarrow>
             (\<exists>stdev. Gradient_stdev (opt_stdev cmd)
                (new_Gradient env (open_float env (argument0 cmd)) (opt_magnitude cmd)) = Inr stdev))
        \<and> (filter_index cmd = 3 \<longrightarrow> opt_stdev cmd = None \<or> opt_fwhm cmd = None) \<longrightarrow>
        (\<exists>out. snd (run env cmd) = Inr out))"
proof -
  let ?tr = "fst (run env cmd)"
  let ?P = "\<lambda>ev. \<not> is_Apply ev"
  have window: "states pre \<noteq> [] \<and> last (states pre) = s
     \<and> \<not> list_ex is_Apply pre \<and> \<not> list_ex is_Apply post
     \<and> ((post = [] \<and> throws env (Apply s) \<noteq> None \<and> (\<exists>e. snd (run env cmd) = Inl e))
          \<or> (\<exists>post'. post = Returned s # post'))"
    if d: "?tr = pre @ Apply s # post" for pre s post
  proof -
    have r: "run env cmd = (?tr, snd (run env cmd))"
      by simp
    have ne: "dropWhile ?P ?tr \<noteq> []"
      using d by (simp add: dropWhile_eq_Nil_conv)
    with run_shape [OF r] obtain f where
      st: "states (takeWhile ?P ?tr) \<noteq> []" "last (states (takeWhile ?P ?tr)) = f"
        "\<not> list_ex is_Apply (takeWhile ?P ?tr)"
      and alt: "(dropWhile ?P ?tr = [Apply f] \<and> throws env (Apply f) \<noteq> None
                 \<and> (\<exists>e. snd (run env cmd) = Inl e))
              \<or> (\<exists>post. dropWhile ?P ?tr = Apply f # Returned f # post
                    \<and> \<not> list_ex is_Apply post)"
      by blast
    from alt have tl: "\<not> list_ex is_Apply (tl (dropWhile ?P ?tr))"
      by auto
    from apply_decomposition [OF d tl] have
      p: "pre = takeWhile ?P ?tr" and q: "Apply s # post = dropWhile ?P ?tr"
      by simp_all
    from q alt have sf: "s = f"
      by auto
    from q alt sf have post: "(post = [] \<and> throws env (Apply s) \<noteq> None
            \<and> (\<exists>e. snd (run env cmd) = Inl e))
          \<or> (\<exists>post'. post = Returned s # post')"
      by auto
    from q tl have np: "\<not> list_ex is_Apply post"
      by (metis list.sel(3))
    from st p sf np post show ?thesis
      by simp
  qed
  have returned: "\<exists>pre s post. ?tr = pre @ Apply s # Returned s # post"
    if a: "snd (run env cmd) = Inr out \<and> filter_index cmd < length filters" for out
  proof -
    from a have r: "run env cmd = (?tr, Inr out)"
      by (simp add: prod_eq_iff)
    from run_returns_after_call [OF r] a obtain f post where
      "dropWhile ?P ?tr = Apply f # Returned f # post"
      by blast
    then have "?tr = takeWhile ?P ?tr @ Apply f # Returned f # post"
      by (metis takeWhile_dropWhile_id)
    then show ?thesis
      by blast
  qed
  have total: "\<exists>out. snd (run env cmd) = Inr out"
    if a: "(\<forall>ev. throws env ev = None) \<and> filter_index cmd < length filters
        \<and> (filter_index cmd = 1 \<longrightarrow>
             (\<exists>stdev. Gradient_stdev (opt_stdev cmd)
                (new_Gradient env (open_float env (argument0 cmd)) (opt_magnitude cmd)) = Inr stdev))
        \<and> (filter_index cmd = 3 \<longrightarrow> opt_stdev cmd = None \<or> opt_fwhm cmd = None)"
  proof -
    from a have "\<exists>tr out. run env cmd = (tr, Inr out)"
      by (intro run_total) simp_all
    then show ?thesis
      by auto
  qed
  have w: "\<forall>pre s post. ?tr = pre @ Apply s # post \<longrightarrow>
       states pre \<noteq> [] \<and> last (states pre) = s
     \<and> \<not> list_ex is_Apply pre \<and> \<not> list_ex is_Apply post
     \<and> ((post = [] \<and> throws env (Apply s) \<noteq> None \<and> (\<exists>e. snd (run env cmd) = Inl e))
          \<or> (\<exists>post'. post = Returned s # post'))"
    by (intro allI impI, rule window, assumption)
  have r: "\<forall>out. snd (run env cmd) = Inr out \<and> filter_index cmd < length filters \<longrightarrow>
        (\<exists>pre s post. ?tr = pre @ Apply s # Returned s # post)"
    by (intro allI impI, rule returned, assumption)
  have t: "(\<forall>ev. throws env ev = None) \<and> filter_index cmd < length filters
        \<and> (filter_index cmd = 1 \<longrightarrow>
             (\<exists>stdev. Gradient_stdev (opt_stdev cmd)
                (new_Gradient env (open_float env (argument0 cmd)) (opt_magnitude cmd)) = Inr stdev))
        \<and> (filter_index cmd = 3 \<longrightarrow> opt_stdev cmd = None \<or> opt_fwhm cmd = None) \<longrightarrow>
        (\<exists>out. snd (run env cmd) = Inr out)"
    by (rule impI, rule total, assumption)
  show ?thesis
    by (rule conjI [OF w conjI [OF r t]])
qed

text \<open>
  The sample runs of all four filters, and of \<open>fft -magnitude\<close>; for the plain \<open>fft\<close> the
  events are written out.
\<close>

theorem filter_state_around_call_witness:
  "(\<forall>ev. throws sample_env ev = None)
   \<and> filter_index (sample_cmd ''fft'' 0) < length filters
   \<and> fst (run sample_env (sample_cmd ''fft'' 0)) =
       [Image_open ''in.mif'',
        Construct (FFT_filter (sample_FFT\<lparr>message := []\<rparr>)),
        Configure (set_centre_zero False) (FFT_filter (sample_FFT\<lparr>message := []\<rparr>)),
        Configure Stride_set_from_command_line (FFT_filter (sample_FFT\<lparr>message := []\<rparr>)),
        Configure (set_message ''applying FFT filter to image in.mif...'') (FFT_filter sample_FFT),
        Image_create ''out.mif'' (Header.truncate sample_FFT)]
       @ Apply (FFT_filter sample_FFT) # [Returned (FFT_filter sample_FFT)]
   \<and> last (states
       [Image_open ''in.mif'',
        Construct (FFT_filter (sample_FFT\<lparr>message := []\<rparr>)),
        Configure (set_centre_zero False) (FFT_filter (sample_FFT\<lparr>message := []\<rparr>)),
        Configure Stride_set_from_command_line (FFT_filter (sample_FFT\<lparr>message := []\<rparr>)),
        Configure (set_message ''applying FFT filter to image in.mif...'') (FFT_filter sample_FFT),
        Image_create ''out.mif'' (Header.truncate sample_FFT)]) = FFT_filter sample_FFT
   \<and> filter_index (sample_cmd ''gradient'' 1) < length filters
   \<and> (\<exists>out. snd (run sample_env (sample_cmd ''gradient'' 1)) = Inr out)
   \<and> (\<exists>pre s post. fst (run sample_env (sample_cmd ''gradient'' 1)) = pre @ Apply s # Returned s # post
         \<and> states pre \<noteq> [] \<and> last (states pre) = s
         \<and> \<not> list_ex is_Apply pre \<and> \<not> list_ex is_Apply (Returned s # post))
   \<and> filter_index (sample_cmd ''median'' 2) < length filters
   \<and> (\<exists>pre s post. fst (run sample_env (sample_cmd ''median'' 2)) = pre @ Apply s # Returned s # post
         \<and> states pre \<noteq> [] \<and> last (states pre) = s
         \<and> \<not> list_ex is_Apply pre \<and> \<not> list_ex is_Apply (Returned s # post))
   \<and> filter_index (sample_cmd ''smooth'' 3) < length filters
   \<and> (\<exists>pre s post. fst (run sample_env (sample_cmd ''smooth'' 3)) = pre @ Apply s # Returned s # post
         \<and> states pre \<noteq> [] \<and> last (states pre) = s
         \<and> \<not> list_ex is_Apply pre \<and> \<not> list_ex is_Apply (Returned s # post))
   \<and> filter_index sample_fft_magnitude < length filters
   \<and> (\<exists>pre s post. fst (run sample_env sample_fft_magnitude) = pre @ Apply s # Returned s # post
         \<and> states pre \<noteq> [] \<and> last (states pre) = s
         \<and> \<not> list_ex is_Apply pre \<and> \<not> list_ex is_Apply (Returned s # post))"
proof -
  have window: "\<exists>out. snd (run sample_env c) = Inr out"
    "\<exists>pre s post. fst (run sample_env c) = pre @ Apply s # Returned s # post
         \<and> states pre \<noteq> [] \<and> last (states pre) = s
         \<and> \<not> list_ex is_Apply pre \<and> \<not> list_ex is_Apply (Returned s # post)"
    if i: "filter_index c < length filters"
      and g: "filter_index c = 1 \<longrightarrow>
             (\<exists>stdev. Gradient_stdev (opt_stdev c)
                (new_Gradient sample_env (open_float sample_env (argument0 c)) (opt_magnitude c)) = Inr stdev)"
      and m: "filter_index c = 3 \<longrightarrow> opt_stdev c = None \<or> opt_fwhm c = None"
    for c
  proof -
    note t = filter_state_around_call [of sample_env c]
    from t sample_env_quiet i g m show o: "\<exists>out. snd (run sample_env c) = Inr out"
      by blast
    then obtain out where "snd (run sample_env c) = Inr out" ..
    with t i obtain pre s post where
      d: "fst (run sample_env c) = pre @ Apply s # Returned s # post"
      by blast
    with t have "states pre \<noteq> [] \<and> last (states pre) = s
         \<and> \<not> list_ex is_Apply pre \<and> \<not> list_ex is_Apply (Returned s # post)"
      by blast
    with d show "\<exists>pre s post. fst (run sample_env c) = pre @ Apply s # Returned s # post
         \<and> states pre \<noteq> [] \<and> last (states pre) = s
         \<and> \<not> list_ex is_Apply pre \<and> \<not> list_ex is_Apply (Returned s # post)"
      by blast
  qed
  have i: "filter_index (sample_cmd ''fft'' 0) < length filters"
    "filter_index (sample_cmd ''gradient'' 1) < length filters"
    "filter_index (sample_cmd ''median'' 2) < length filters"
    "filter_index (sample_cmd ''smooth'' 3) < length filters"
    "filter_index sample_fft_magnitude < length filters"
    by (simp_all add: sample_cmd_def sample_fft_magnitude_def filters_def)
  have g: "filter_index (sample_cmd ''gradient'' 1) = 1 \<longrightarrow>
     (\<exists>stdev. Gradient_stdev (opt_stdev (sample_cmd ''gradient'' 1))
        (new_Gradient sample_env (open_float sample_env (argument0 (sample_cmd ''gradient'' 1)))
           (opt_magnitude (sample_cmd ''gradient'' 1))) = Inr stdev)"
    using sample_gradient_stdev by blast
  have n: "filter_index (sample_cmd ''median'' 2) \<noteq> 1" "filter_index (sample_cmd ''median'' 2) \<noteq> 3"
    "filter_index (sample_cmd ''smooth'' 3) \<noteq> 1" "opt_stdev (sample_cmd ''smooth'' 3) = None"
    "filter_index sample_fft_magnitude \<noteq> 1" "filter_index sample_fft_magnitude \<noteq> 3"
    "filter_index (sample_cmd ''gradient'' 1) \<noteq> 3"
    by (simp_all add: sample_cmd_def sample_fft_magnitude_def)
  have f: "fst (run sample_env (sample_cmd ''fft'' 0)) =
       [Image_open ''in.mif'',
        Construct (FFT_filter (sample_FFT\<lparr>message := []\<rparr>)),
        Configure (set_centre_zero False) (FFT_filter (sample_FFT\<lparr>message := []\<rparr>)),
        Configure Stride_set_from_command_line (FFT_filter (sample_FFT\<lparr>message := []\<rparr>)),
        Configure (set_message ''applying FFT filter to image in.mif...'') (FFT_filter sample_FFT),
        Image_create ''out.mif'' (Header.truncate sample_FFT)]
       @ Apply (FFT_filter sample_FFT) # [Returned (FFT_filter sample_FFT)]"
    by (simp add: sample_fft_run)
  from filter_state_around_call [of sample_env "sample_cmd ''fft'' 0"] f have l: "last (states
       [Image_open ''in.mif'',
        Construct (FFT_filter (sample_FFT\<lparr>message := []\<rparr>)),
        Configure (set_centre_zero False) (FFT_filter (sample_FFT\<lparr>message := []\<rparr>)),
        Configure Stride_set_from_command_line (FFT_filter (sample_FFT\<lparr>message := []\<rparr>)),
        Configure (set_message ''applying FFT filter to image in.mif...'') (FFT_filter sample_FFT),
        Image_create ''out.mif'' (Header.truncate sample_FFT)]) = FFT_filter sample_FFT"
    by blast
  from sample_env_quiet i f l window(1) [OF i(2) g] window(2) [OF i(2) g]
    window(2) [OF i(3)] window(2) [OF i(4)] window(2) [OF i(5)] n
  show ?thesis
    by (intro conjI) simp_all
qed

subsection \<open>The gradient filter: the standard deviations\<close>

text \<open>
  Claim C5. For the gradient filter, the check of a list given with the option \<open>stdev\<close>
  fails if and only if the list holds a negative value or its length is neither 1 nor 3: a
  negative value gives "the Gaussian stdev values cannot be negative", and otherwise a wrong
  length gives "unexpected number of elements specified in Gaussian stdev". When the input
  image has been opened and the filter constructed, \<open>run\<close> ends with that exception on a
  list that fails, having done nothing else; a list that passes, zeros included, is handed
  to \<open>set_stdev\<close> as it is. \<open>set_stdev\<close> (modelled from the specification) repeats a
  single value on the 3 spatial axes and keeps a list of 3.
\<close>

theorem gradient_stdev_validation:
  "let G = new_Gradient env (open_float env (argument0 cmd)) (opt_magnitude cmd);
       start = [Image_open (argument0 cmd), Construct (Gradient_filter G)];
       negative = (\<exists>x\<in>set stdev. x < 0);
       rejected = (negative \<or> (length stdev \<noteq> 1 \<and> length stdev \<noteq> 3));
       reached = (filter_index cmd = 1 \<and> opt_stdev cmd = Some stdev
                  \<and> (\<forall>ev\<in>set start. throws env ev = None))
   in ((\<exists>e. Gradient_stdev (Some stdev) G = Inl e) \<longleftrightarrow> rejected)
    \<and> (negative \<longrightarrow> Gradient_stdev (Some stdev) G =
          Inl (Exception ''the Gaussian stdev values cannot be negative''))
    \<and> (rejected \<and> \<not> negative \<longrightarrow> Gradient_stdev (Some stdev) G =
          Inl (Exception ''unexpected number of elements specified in Gaussian stdev''))
    \<and> (\<not> rejected \<longrightarrow> Gradient_stdev (Some stdev) G = Inr stdev)
    \<and> (reached \<and> rejected \<longrightarrow> (\<exists>msg. run env cmd = (start, Inl (Exception msg))))
    \<and> (reached \<and> \<not> rejected \<longrightarrow> take 3 (fst (run env cmd)) =
          start @ [Configure (set_stdev stdev) (Gradient_filter (Gradient_set_stdev stdev G))])
    \<and> (\<forall>x. gradient_stdev (Gradient_set_stdev [x] G) = [x, x, x])
    \<and> (length stdev = 3 \<longrightarrow> gradient_stdev (Gradient_set_stdev stdev G) = stdev)"
proof -
  define G where "G = new_Gradient env (open_float env (argument0 cmd)) (opt_magnitude cmd)"
  let ?negative = "\<exists>x\<in>set stdev. x < 0"
  let ?rejected = "?negative \<or> (length stdev \<noteq> 1 \<and> length stdev \<noteq> 3)"
  let ?start = "[Image_open (argument0 cmd), Construct (Gradient_filter G)]"
  let ?reached = "filter_index cmd = 1 \<and> opt_stdev cmd = Some stdev
                  \<and> (\<forall>ev\<in>set ?start. throws env ev = None)"
  have neg: "?negative \<longrightarrow> Gradient_stdev (Some stdev) G =
          Inl (Exception ''the Gaussian stdev values cannot be negative'')"
    by (simp add: Gradient_stdev_def any_negative_iff)
  have len: "?rejected \<and> \<not> ?negative \<longrightarrow> Gradient_stdev (Some stdev) G =
          Inl (Exception ''unexpected number of elements specified in Gaussian stdev'')"
    by (auto simp add: Gradient_stdev_def any_negative_iff)
  have acc: "\<not> ?rejected \<longrightarrow> Gradient_stdev (Some stdev) G = Inr stdev"
    by (auto simp add: Gradient_stdev_def any_negative_iff)
  from neg len acc have iff: "(\<exists>e. Gradient_stdev (Some stdev) G = Inl e) \<longleftrightarrow> ?rejected"
    by (cases "?rejected") auto
  have rej: "?reached \<and> ?rejected \<longrightarrow> (\<exists>msg. run env cmd = (?start, Inl (Exception msg)))"
  proof
    assume a: "?reached \<and> ?rejected"
    with neg len obtain msg where "Gradient_stdev (opt_stdev cmd) G = Inl (Exception msg)"
      by (cases "?negative") auto
    with a show "\<exists>msg. run env cmd = (?start, Inl (Exception msg))"
      using case_Gradient_rejected [of cmd G env "Exception msg"] by (simp add: G_def)
  qed
  have run_acc: "?reached \<and> \<not> ?rejected \<longrightarrow> take 3 (fst (run env cmd)) =
          ?start @ [Configure (set_stdev stdev) (Gradient_filter (Gradient_set_stdev stdev G))]"
  proof
    assume a: "?reached \<and> \<not> ?rejected"
    with acc have "Gradient_stdev (opt_stdev cmd) G = Inr stdev"
      by simp
    with a show "take 3 (fst (run env cmd)) =
          ?start @ [Configure (set_stdev stdev) (Gradient_filter (Gradient_set_stdev stdev G))]"
      using case_Gradient_accepted [of cmd G env stdev] by (simp add: G_def)
  qed
  have one: "\<forall>x. gradient_stdev (Gradient_set_stdev [x] G) = [x, x, x]"
    by (simp add: Gradient_set_stdev_def numeral_3_eq_3)
  have three: "length stdev = 3 \<longrightarrow> gradient_stdev (Gradient_set_stdev stdev G) = stdev"
    by (simp add: Gradient_set_stdev_def)
  from iff neg len acc rej run_acc one three show ?thesis
    unfolding Let_def G_def [symmetric] by (intro conjI)
qed

text \<open>
  On the sample image: lists of zeros pass, and \<open>-stdev 0\<close> reaches \<open>set_stdev\<close>; a negative
  value and a list of 2 values do not pass.
\<close>

theorem gradient_stdev_validation_witness:
  "filter_index ((sample_cmd ''gradient'' 1)\<lparr>opt_stdev := Some [0]\<rparr>) = 1
   \<and> throws sample_env (Image_open ''in.mif'') = None
   \<and> throws sample_env (Construct (Gradient_filter sample_Gradient)) = None
   \<and> Gradient_stdev (Some [0]) sample_Gradient = Inr [0]
   \<and> take 3 (fst (run sample_env ((sample_cmd ''gradient'' 1)\<lparr>opt_stdev := Some [0]\<rparr>))) =
        [Image_open ''in.mif'', Construct (Gradient_filter sample_Gradient),
         Configure (set_stdev [0]) (Gradient_filter (sample_Gradient\<lparr>gradient_stdev := [0, 0, 0]\<rparr>))]
   \<and> Gradient_stdev (Some [0, 1.5, 0]) sample_Gradient = Inr [0, 1.5, 0]
   \<and> Gradient_stdev (Some [1, - 1]) sample_Gradient =
        Inl (Exception ''the Gaussian stdev values cannot be negative'')
   \<and> Gradient_stdev (Some [1, 2]) sample_Gradient =
        Inl (Exception ''unexpected number of elements specified in Gaussian stdev'')"
  using gradient_stdev_validation [of sample_env "(sample_cmd ''gradient'' 1)\<lparr>opt_stdev := Some [0]\<rparr>" "[0]"]
    gradient_stdev_validation [of sample_env "sample_cmd ''gradient'' 1" "[0, 1.5, 0]"]
    gradient_stdev_validation [of sample_env "sample_cmd ''gradient'' 1" "[1, - 1]"]
    gradient_stdev_validation [of sample_env "sample_cmd ''gradient'' 1" "[1, 2]"]
  by (simp add: Let_def sample_cmd_def sample_Gradient_def sample_env_def Gradient_set_stdev_def
      numeral_3_eq_3)

text \<open>
  Claim C6. For the gradient filter, on a filter of at least 3 axes, when \<open>stdev\<close> is not
  given the default standard deviation of each of the 3 spatial axes is the voxel size of
  that axis: \<open>stdev[d] = voxsize (d)\<close> for \<open>d\<close> = 0, 1, 2. The list has one element per
  axis of the filter, and the element of every further axis, which is not smoothed, is 0.
  It is the list \<open>set_stdev\<close> is called with, once the input image has been opened and the
  filter constructed.
\<close>

theorem gradient_default_stdev:
  assumes "G = new_Gradient env (open_float env (argument0 cmd)) (opt_magnitude cmd)"
    and "3 \<le> Header_ndim G"
  shows "\<exists>stdev. Gradient_stdev None G = Inr stdev \<and> length stdev = Header_ndim G
     \<and> (\<forall>d<3. Header_voxsize G d = Inr (stdev ! d))
     \<and> (\<forall>d. 3 \<le> d \<and> d < Header_ndim G \<longrightarrow> stdev ! d = 0)
     \<and> (filter_index cmd = 1 \<and> opt_stdev cmd = None
          \<and> throws env (Image_open (argument0 cmd)) = None
          \<and> throws env (Construct (Gradient_filter G)) = None \<longrightarrow>
        take 3 (fst (run env cmd)) =
          [Image_open (argument0 cmd), Construct (Gradient_filter G),
           Configure (set_stdev stdev) (Gradient_filter (Gradient_set_stdev stdev G))])"
proof -
  let ?n = "length (hdr_axes G)"
  let ?s = "(replicate ?n 0)[0 := spacing (hdr_axes G ! 0),
               Suc 0 := spacing (hdr_axes G ! Suc 0),
               Suc (Suc 0) := spacing (hdr_axes G ! Suc (Suc 0))]"
  from assms(2) have n: "3 \<le> ?n"
    by (simp add: Header_ndim_def)
  then have r: "Gradient_stdev None G = Inr ?s"
    by (simp add: Gradient_stdev_def Header_ndim_def voxsize_loop_3)
  have "\<forall>d<3. Header_voxsize G d = Inr (?s ! d)"
  proof (intro allI impI)
    fix d :: nat
    assume "d < 3"
    then have "d = 0 \<or> d = Suc 0 \<or> d = Suc (Suc 0)"
      by arith
    with n show "Header_voxsize G d = Inr (?s ! d)"
      by (auto simp add: Header_voxsize_def)
  qed
  moreover have "\<forall>d. 3 \<le> d \<and> d < Header_ndim G \<longrightarrow> ?s ! d = 0"
    by (simp add: Header_ndim_def)
  moreover have "length ?s = Header_ndim G"
    by (simp add: Header_ndim_def)
  moreover have "filter_index cmd = 1 \<and> opt_stdev cmd = None
          \<and> throws env (Image_open (argument0 cmd)) = None
          \<and> throws env (Construct (Gradient_filter G)) = None \<longrightarrow>
        take 3 (fst (run env cmd)) =
          [Image_open (argument0 cmd), Construct (Gradient_filter G),
           Configure (set_stdev ?s) (Gradient_filter (Gradient_set_stdev ?s G))]"
    using case_Gradient_accepted [of cmd G env ?s] r assms(1) by simp
  ultimately show ?thesis
    using r by blast
qed

text \<open>The sample image, of 4 axes with voxel sizes 1, 2, 3 and 4.\<close>

theorem gradient_default_stdev_witness:
  "3 \<le> Header_ndim sample_Gradient
   \<and> (\<exists>stdev. Gradient_stdev None sample_Gradient = Inr stdev \<and> length stdev = 4
        \<and> Inr (stdev ! 0) = (Inr 1 :: Failure + real)
        \<and> Inr (stdev ! 1) = (Inr 2 :: Failure + real)
        \<and> Inr (stdev ! 2) = (Inr 3 :: Failure + real)
        \<and> stdev ! 3 = 0
        \<and> take 3 (fst (run sample_env (sample_cmd ''gradient'' 1))) =
            [Image_open ''in.mif'', Construct (Gradient_filter sample_Gradient),
             Configure (set_stdev stdev) (Gradient_filter (Gradient_set_stdev stdev sample_Gradient))])"
proof -
  have g: "sample_Gradient = new_Gradient sample_env
      (open_float sample_env (argument0 (sample_cmd ''gradient'' 1)))
      (opt_magnitude (sample_cmd ''gradient'' 1))"
    by (simp add: sample_Gradient_def sample_cmd_def)
  have n: "3 \<le> Header_ndim sample_Gradient" and n4: "Header_ndim sample_Gradient = 4"
    by (simp_all add: Header_ndim_def sample_Gradient_def sample_env_def sample_header_def)
  have v: "Header_voxsize sample_Gradient 0 = Inr 1" "Header_voxsize sample_Gradient 1 = Inr 2"
    "Header_voxsize sample_Gradient 2 = Inr 3"
    by (simp_all add: Header_voxsize_def sample_Gradient_def sample_env_def sample_header_def)
  have c: "filter_index (sample_cmd ''gradient'' 1) = 1 \<and> opt_stdev (sample_cmd ''gradient'' 1) = None
      \<and> throws sample_env (Image_open (argument0 (sample_cmd ''gradient'' 1))) = None
      \<and> throws sample_env (Construct (Gradient_filter sample_Gradient)) = None"
    and a0: "argument0 (sample_cmd ''gradient'' 1) = ''in.mif''"
    by (simp_all add: sample_cmd_def sample_env_def)
  from gradient_default_stdev [OF g n] obtain stdev where
    r: "Gradient_stdev None sample_Gradient = Inr stdev"
    and l: "length stdev = Header_ndim sample_Gradient"
    and a: "\<forall>d<3. Header_voxsize sample_Gradient d = Inr (stdev ! d)"
    and z: "\<forall>d. 3 \<le> d \<and> d < Header_ndim sample_Gradient \<longrightarrow> stdev ! d = 0"
    and t: "filter_index (sample_cmd ''gradient'' 1) = 1 \<and> opt_stdev (sample_cmd ''gradient'' 1) = None
          \<and> throws sample_env (Image_open (argument0 (sample_cmd ''gradient'' 1))) = None
          \<and> throws sample_env (Construct (Gradient_filter sample_Gradient)) = None \<longrightarrow>
        take 3 (fst (run sample_env (sample_cmd ''gradient'' 1))) =
          [Image_open (argument0 (sample_cmd ''gradient'' 1)), Construct (Gradient_filter sample_Gradient),
           Configure (set_stdev stdev) (Gradient_filter (Gradient_set_stdev stdev sample_Gradient))]"
    by blast
  from a have "Header_voxsize sample_Gradient 0 = Inr (stdev ! 0)"
    "Header_voxsize sample_Gradient 1 = Inr (stdev ! 1)"
    "Header_voxsize sample_Gradient 2 = Inr (stdev ! 2)"
    by simp_all
  with v have s: "Inr (stdev ! 0) = (Inr 1 :: Failure + real)"
    "Inr (stdev ! 1) = (Inr 2 :: Failure + real)" "Inr (stdev ! 2) = (Inr 3 :: Failure + real)"
    by simp_all
  from z n4 have z3: "stdev ! 3 = 0"
    by simp
  from t c a0 have "take 3 (fst (run sample_env (sample_cmd ''gradient'' 1))) =
            [Image_open ''in.mif'', Construct (Gradient_filter sample_Gradient),
             Configure (set_stdev stdev) (Gradient_filter (Gradient_set_stdev stdev sample_Gradient))]"
    by simp
  with n r l n4 s z3 show ?thesis
    by (intro conjI exI [of _ stdev]) simp_all
qed

subsection \<open>The smooth filter: \<open>fwhm\<close>\<close>

text \<open>
  Claim C7. For the smooth filter with the option \<open>fwhm\<close> (and without \<open>stdev\<close>), the
  loop over the list divides every value by 2.3548; whenever \<open>set_stdev\<close> is called it is
  called with that list, and an invocation that returns normally has called it so.
\<close>

theorem smooth_fwhm_conversion:
  assumes "filter_index cmd = 3" and "opt_stdev cmd = None" and "opt_fwhm cmd = Some fwhm"
    and "run env cmd = (tr, r)"
  shows "fwhm_loop 0 fwhm = map (\<lambda>x. x / 2.3548) fwhm
    \<and> (\<forall>stdev flt. Configure (set_stdev stdev) flt \<in> set tr \<longrightarrow>
          stdev = map (\<lambda>x. x / 2.3548) fwhm)
    \<and> (\<forall>out. r = Inr out \<longrightarrow>
          (\<exists>flt. Configure (set_stdev (map (\<lambda>x. x / 2.3548) fwhm)) (Smooth_filter flt) \<in> set tr
             \<and> smooth_stdev flt = map (\<lambda>x. x / 2.3548) fwhm))"
  using assms
  by (auto simp add: run_def switch_def case_Smooth_def configure_defs Let_def fwhm_loop_map
      split: option.splits prod.splits)

text \<open>The sample \<open>-fwhm 2.3548,4.7096\<close>: the filter is given 1 and 2.\<close>

theorem smooth_fwhm_conversion_witness:
  "filter_index sample_smooth_fwhm = 3 \<and> opt_stdev sample_smooth_fwhm = None
   \<and> opt_fwhm sample_smooth_fwhm = Some [2.3548, 4.7096]
   \<and> fwhm_loop 0 [2.3548, 4.7096] = [1, 2]
   \<and> Configure (set_stdev [1, 2]) (Smooth_filter (sample_Smooth\<lparr>smooth_stdev := [1, 2]\<rparr>))
        \<in> set (fst (run sample_env sample_smooth_fwhm))
   \<and> (\<exists>out. snd (run sample_env sample_smooth_fwhm) = Inr out)"
proof -
  have c: "filter_index sample_smooth_fwhm = 3" "opt_stdev sample_smooth_fwhm = None"
    "opt_fwhm sample_smooth_fwhm = Some [2.3548, 4.7096]"
    by (simp_all add: sample_smooth_fwhm_def sample_cmd_def)
  have m: "map (\<lambda>x. x / 2.3548) [2.3548, 4.7096] = [1, 2 :: real]"
    by simp
  have r: "run sample_env sample_smooth_fwhm =
    (fst (run sample_env sample_smooth_fwhm), snd (run sample_env sample_smooth_fwhm))"
    by simp
  have ok: "\<exists>out. snd (run sample_env sample_smooth_fwhm) = Inr out"
    by (simp add: run_def switch_def case_Smooth_def configure_defs Let_def return_def
        sample_smooth_fwhm_def sample_cmd_def sample_env_def)
  have ev: "Configure (set_stdev [1, 2]) (Smooth_filter (sample_Smooth\<lparr>smooth_stdev := [1, 2]\<rparr>))
        \<in> set (fst (run sample_env sample_smooth_fwhm))"
    by (simp add: run_def switch_def case_Smooth_def configure_defs Let_def return_def
        sample_smooth_fwhm_def sample_cmd_def sample_env_def sample_Smooth_def fwhm_loop_map)
  from smooth_fwhm_conversion [OF c r] m have "fwhm_loop 0 [2.3548, 4.7096] = [1, 2]"
    by simp
  with c ok ev show ?thesis
    by (intro conjI)
qed

subsection \<open>The default branch of the switch\<close>

text \<open>
  Claim C8, as the code has it. The default branch is taken exactly when the filter index is
  4 or more. In a build where \<open>assert\<close> is active (\<open>NDEBUG\<close> not defined), \<open>run\<close> then aborts
  on the failed assertion without having done anything. When the argument was validated
  against the closed list of filters, the default branch is not taken.
\<close>

theorem default_branch:
  "(switch (filter_index cmd) = Default \<longleftrightarrow> 4 \<le> filter_index cmd)
   \<and> (switch (filter_index cmd) = Default \<and> \<not> NDEBUG env \<longrightarrow>
        run env cmd = ([], Inl Assertion_failed))
   \<and> (validated cmd \<longrightarrow> switch (filter_index cmd) \<noteq> Default \<and> argument1 cmd \<in> set filters)"
  by (auto simp add: switch_def run_def case_default_def validated_def filters_def throw_def)

text \<open>An index past the list in a build with assertions, and the validated \<open>median\<close>.\<close>

theorem default_branch_witness:
  "switch (filter_index (sample_cmd ''sharpen'' 4)) = Default \<and> \<not> NDEBUG sample_env
   \<and> run sample_env (sample_cmd ''sharpen'' 4) = ([], Inl Assertion_failed)
   \<and> validated (sample_cmd ''median'' 2)
   \<and> switch (filter_index (sample_cmd ''median'' 2)) \<noteq> Default
   \<and> argument1 (sample_cmd ''median'' 2) \<in> set filters"
proof -
  have d: "switch (filter_index (sample_cmd ''sharpen'' 4)) = Default"
    by (simp add: switch_def sample_cmd_def)
  have n: "\<not> NDEBUG sample_env"
    by (simp add: sample_env_def)
  have v: "validated (sample_cmd ''median'' 2)"
    by (simp add: validated_def sample_cmd_def filters_def)
  from default_branch [of "sample_cmd ''sharpen'' 4" sample_env] d n
  have r: "run sample_env (sample_cmd ''sharpen'' 4) = ([], Inl Assertion_failed)"
    by simp
  from default_branch [of "sample_cmd ''median'' 2" sample_env] v
  have "switch (filter_index (sample_cmd ''median'' 2)) \<noteq> Default"
    and "argument1 (sample_cmd ''median'' 2) \<in> set filters"
    by blast+
  with d n v r show ?thesis
    by (intro conjI)
qed

text \<open>
  The claim as stated fails in a build with \<open>NDEBUG\<close> defined: the assertion is compiled
  out, the branch leaves the switch, and \<open>run\<close> returns normally, having done nothing.
\<close>

theorem default_branch_NDEBUG:
  "switch (filter_index (sample_cmd ''sharpen'' 4)) = Default
   \<and> ''sharpen'' \<notin> set filters
   \<and> run sample_env_NDEBUG (sample_cmd ''sharpen'' 4) = ([], Inr No_output)"
  by (simp add: switch_def sample_cmd_def run_def case_default_def sample_env_NDEBUG_def
      sample_env_def filters_def return_def)

end
